theory Spec2Isabelle
  imports Main "HOL-Library.Sublist" "HOL-Library.AList"
begin

section \<open>Python values\<close>

text \<open>
  The values that travel through the access layer are decoded JSON documents and the
  dictionaries built from them. JSON numbers are restricted to integers (floating point
  is outside the model). A dictionary is an association list in insertion order whose
  keys are pairwise distinct as Python compares them. Its keys are hashable values:
  \<open>None\<close>, booleans, integers and strings; a decoded JSON object has string keys only.
\<close>

datatype json =
    JNull
  | JBool bool
  | JInt int
  | JStr string
  | JArr "json list"
  | JObj "(json \<times> json) list"

type_synonym dict = "(string \<times> json) list"

text \<open>The exceptions the code can meet. All of them derive from \<open>Exception\<close>.\<close>

datatype exn =
    ValueError string
  | TypeError
  | AttributeError
  | KeyError string
  | HTTPStatusError string
  | RequestError string
  | ValidationError
  | JSONDecodeError

text \<open>Truth value testing (\<open>if x:\<close>, \<open>not x\<close>).\<close>

fun truthy :: "json \<Rightarrow> bool" where
  "truthy JNull = False"
| "truthy (JBool b) = b"
| "truthy (JInt n) = (n \<noteq> 0)"
| "truthy (JStr s) = (s \<noteq> [])"
| "truthy (JArr xs) = (xs \<noteq> [])"
| "truthy (JObj kv) = (kv \<noteq> [])"

text \<open>\<open>os.getenv\<close> returns \<open>None\<close> or a string; the empty string is falsy.\<close>

fun env_truthy :: "string option \<Rightarrow> bool" where
  "env_truthy None = False"
| "env_truthy (Some s) = (s \<noteq> [])"

text \<open>\<open>d.get(k, default)\<close> on a dictionary with string keys (a result dictionary, the
  query parameters of a request).\<close>

definition dict_get :: "dict \<Rightarrow> string \<Rightarrow> json \<Rightarrow> json" where
  "dict_get d k dflt = (case map_of d k of None \<Rightarrow> dflt | Some v \<Rightarrow> v)"

text \<open>\<open>x.get(k, default)\<close> with a string \<open>k\<close> on any value: only a dictionary has the
  method, and only a string key equals \<open>k\<close>.\<close>

fun py_get :: "json \<Rightarrow> string \<Rightarrow> json \<Rightarrow> exn + json" where
  "py_get (JObj kv) k dflt = Inr (case map_of kv (JStr k) of None \<Rightarrow> dflt | Some v \<Rightarrow> v)"
| "py_get _ k dflt = Inl AttributeError"

text \<open>\<open>x[k]\<close> with a string \<open>k\<close>: a missing key raises \<open>KeyError\<close>, any other value
  than a dictionary raises \<open>TypeError\<close>.\<close>

fun py_getitem :: "json \<Rightarrow> string \<Rightarrow> exn + json" where
  "py_getitem (JObj kv) k = (case map_of kv (JStr k) of None \<Rightarrow> Inl (KeyError k) | Some v \<Rightarrow> Inr v)"
| "py_getitem _ k = Inl TypeError"

text \<open>\<open>k in x\<close> with a string \<open>k\<close>: key membership in a dictionary, element membership
  in a list, substring test in a string, \<open>TypeError\<close> otherwise.\<close>

fun py_in :: "string \<Rightarrow> json \<Rightarrow> exn + bool" where
  "py_in k (JObj kv) = Inr (JStr k \<in> set (map fst kv))"
| "py_in k (JArr xs) = Inr (JStr k \<in> set xs)"
| "py_in k (JStr s) = Inr (sublist k s)"
| "py_in k _ = Inl TypeError"

text \<open>Iteration (\<open>for k in x\<close>, \<open>list.extend(x)\<close>): the elements of a list, the keys of a
  dictionary, the characters of a string, \<open>TypeError\<close> otherwise.\<close>

fun py_iter :: "json \<Rightarrow> exn + json list" where
  "py_iter (JArr xs) = Inr xs"
| "py_iter (JObj kv) = Inr (map fst kv)"
| "py_iter (JStr s) = Inr (map (\<lambda>c. JStr [c]) s)"
| "py_iter _ = Inl TypeError"

text \<open>\<open>n >= x\<close> with an integer \<open>n\<close>: defined against integers and booleans
  (\<open>True\<close> is 1), \<open>TypeError\<close> otherwise.\<close>

fun py_int_ge :: "int \<Rightarrow> json \<Rightarrow> exn + bool" where
  "py_int_ge n (JInt m) = Inr (n \<ge> m)"
| "py_int_ge n (JBool b) = Inr (n \<ge> (if b then 1 else 0))"
| "py_int_ge n _ = Inl TypeError"

text \<open>\<open>s.split(" ")\<close>: split at every single space, keeping empty pieces.\<close>

fun split_sp :: "string \<Rightarrow> string list" where
  "split_sp [] = [[]]"
| "split_sp (c # cs) =
     (if c = CHR '' '' then [] # split_sp cs
      else (case split_sp cs of [] \<Rightarrow> [[c]] | w # ws \<Rightarrow> (c # w) # ws))"

section \<open>The tri-state result dictionaries\<close>

text \<open>\<open>ResultsPending\<close>, \<open>ResultsError\<close> and \<open>ResultsSuccess\<close> are dictionaries with
  fixed keys; \<open>is_success\<close> looks at the \<open>status\<close> key only.\<close>

definition ResultsPending :: dict where
  "ResultsPending = [(''pending'', JBool True), (''message'', JStr ''Awaiting user authentication.'')]"

definition ResultsError :: "string \<Rightarrow> dict" where
  "ResultsError message = [(''status'', JStr ''error''), (''message'', JStr message)]"

definition ResultsSuccess :: "json \<Rightarrow> dict" where
  "ResultsSuccess data = [(''status'', JStr ''success''), (''data'', data)]"

definition is_success :: "dict \<Rightarrow> bool" where
  "is_success d = (case map_of d ''status'' of None \<Rightarrow> False | Some v \<Rightarrow> v = JStr ''success'')"

section \<open>Credentials, session context and the outside world\<close>

record oauth2_auth =
  client_id :: "string option"
  client_secret :: "string option"
  audience :: "string option"
  access_token :: "string option"
  refresh_token :: "string option"

record auth_credential =
  auth_type :: string
  oauth2 :: "oauth2_auth option"

record oauth_scheme =
  authorizationUrl :: string
  tokenUrl :: string
  refreshUrl :: string
  scopes :: "(string \<times> string) list"

record auth_config =
  auth_scheme :: oauth_scheme
  raw_auth_credential :: auth_credential

text \<open>An outbound HTTP request as \<open>httpx\<close> receives it, and what the code observes of
  the response: the status code, the text of the \<open>HTTPStatusError\<close> that
  \<open>raise_for_status\<close> builds, the body text and the outcome of \<open>response.json()\<close>.\<close>

record request =
  req_method :: string
  req_url :: string
  req_headers :: "(string \<times> string) list"
  req_auth :: "(string \<times> string) option"
  req_params :: "dict option"
  req_json :: "dict option"
  req_timeout :: nat

record response =
  status_code :: nat
  status_error :: string
  resp_text :: string
  resp_json :: "exn + json"

text \<open>
  The session context (\<open>ToolContext\<close>): the per-session key-value state, the consent
  capability (\<open>get_auth_response\<close> gives the credential of a completed consent, if any)
  and the list of consent requests made through \<open>request_credential\<close>.
\<close>

record tool_context =
  state :: "string \<rightharpoonup> json"
  auth_response :: "auth_config \<Rightarrow> auth_credential option"
  requested :: "auth_config list"

text \<open>
  Everything the code calls that is not part of the repository is a parameter:
  the process environment, the truth value of a session state object, the pydantic
  (de)serialisation of credentials, the OAuth2 credential refresher, the textual form of
  values inside f-strings, and the HTTP server. The server's answer may depend on the
  requests issued before.
\<close>

record ext =
  getenv :: "string \<Rightarrow> string option"
  state_bool :: "(string \<rightharpoonup> json) \<Rightarrow> bool"
  model_validate_json :: "json \<Rightarrow> exn + auth_credential"
  model_dump_json :: "auth_credential \<Rightarrow> string"
  is_refresh_needed :: "auth_credential \<Rightarrow> oauth_scheme \<Rightarrow> exn + bool"
  refresh :: "auth_credential \<Rightarrow> oauth_scheme \<Rightarrow> exn + auth_credential"
  py_repr :: "json \<Rightarrow> string"
  cred_repr :: "auth_credential \<Rightarrow> string"
  server :: "request list \<Rightarrow> request \<Rightarrow> exn + response"

text \<open>The mutable world of one run: the \<open>tool_context\<close> argument (\<open>None\<close> when the
  caller passes none) and the log of requests issued so far.\<close>

record world =
  tc :: "tool_context option"
  sent :: "request list"

definition TOKEN_CACHE :: string where
  "TOKEN_CACHE = ''jra_agent_token''"

definition JIRA_INSTANCE_CACHE :: string where
  "JIRA_INSTANCE_CACHE = ''jira_instance_cache''"

text \<open>\<open>state.get(key)\<close>: \<open>None\<close> for a missing key.\<close>

definition state_get :: "(string \<rightharpoonup> json) \<Rightarrow> string \<Rightarrow> json" where
  "state_get st k = (case st k of None \<Rightarrow> JNull | Some v \<Rightarrow> v)"

text \<open>A value inside an f-string: a string is inserted as it is.\<close>

definition py_str :: "ext \<Rightarrow> json \<Rightarrow> string" where
  "py_str E v = (case v of JStr s \<Rightarrow> s | _ \<Rightarrow> py_repr E v)"

section \<open>The OAuth2 refresh step\<close>

text \<open>\<open>_get_auth_sheme_and_credential\<close>. The environment does not change during a run,
  so the memoisation of \<open>functools.cache\<close> is not visible.\<close>

definition get_auth_sheme_and_credential :: "ext \<Rightarrow> exn + (oauth_scheme \<times> auth_credential)" where
  "get_auth_sheme_and_credential E =
     (let cid = getenv E ''ADK_OAUTH_CLIENT_ID'';
          secret = getenv E ''ADK_OAUTH_CLIENT_SECRET''
      in if \<not> (env_truthy secret \<and> env_truthy cid)
         then Inl (ValueError ''must define environment variables ADK_OAUTH_CLIENT_ID and ADK_OAUTH_CLIENT_SECRET'')
         else
           (let auth_uri = getenv E ''ADK_OAUTH_AUTH_URI'';
                token_uri = getenv E ''ADK_OAUTH_TOKEN_URI'';
                scps = getenv E ''ADK_OAUTH_SCOPES''
            in if \<not> (env_truthy auth_uri \<and> env_truthy token_uri \<and> env_truthy scps)
               then Inl (ValueError ''must define environment variables ADK_OAUTH_AUTH_URI, ADK_OAUTH_TOKEN_URI, and ADK_OAUTH_SCOPES'')
               else Inr
                 (\<lparr> authorizationUrl = the auth_uri,
                     tokenUrl = the token_uri,
                     refreshUrl = the token_uri,
                     scopes = foldl (\<lambda>d s. AList.update s (''Access to '' @ s) d) [] (split_sp (the scps)) \<rparr>,
                  \<lparr> auth_type = ''oauth2'',
                     oauth2 = Some \<lparr> client_id = cid, client_secret = secret,
                                     audience = getenv E ''ADK_OAUTH_AUDIENCE'',
                                     access_token = None, refresh_token = None \<rparr> \<rparr>)))"

text \<open>
  \<open>_refresh_credentials\<close>. The result pairs what the call returns (or raises) with the
  session context after it. Every exception raised inside the \<open>try\<close> block is caught
  by \<open>except Exception\<close>; the \<open>return ResultsSuccess()\<close> after the block is reached on
  every path through \<open>if creds:\<close>.
\<close>

definition refresh_credentials :: "ext \<Rightarrow> tool_context \<Rightarrow> (exn + dict) \<times> tool_context" where
  "refresh_credentials E c =
     (case get_auth_sheme_and_credential E of
        Inl e \<Rightarrow> (Inl e, c)
      | Inr sc \<Rightarrow>
          (let scheme = fst sc;
               cfg = \<lparr> auth_scheme = fst sc, raw_auth_credential = snd sc \<rparr>;
               auth_cred = state_get (state c) TOKEN_CACHE
           in if truthy auth_cred
              then (case model_validate_json E auth_cred of
                      Inl e \<Rightarrow> (Inl e, c)
                    | Inr creds \<Rightarrow>
                        (case is_refresh_needed E creds scheme of
                           Inl e \<Rightarrow> (Inr (ResultsSuccess JNull), c\<lparr>state := (state c)(TOKEN_CACHE \<mapsto> JNull)\<rparr>)
                         | Inr needed \<Rightarrow>
                             if needed
                             then (case refresh E creds scheme of
                                     Inl e \<Rightarrow> (Inr (ResultsSuccess JNull),
                                               c\<lparr>state := (state c)(TOKEN_CACHE \<mapsto> JNull)\<rparr>)
                                   | Inr new \<Rightarrow> (Inr (ResultsSuccess JNull),
                                                 c\<lparr>state := (state c)(TOKEN_CACHE \<mapsto> JStr (model_dump_json E new))\<rparr>))
                             else (Inr (ResultsSuccess JNull), c)))
              else (case auth_response c cfg of
                      Some creds \<Rightarrow> (Inr (ResultsSuccess JNull),
                                     c\<lparr>state := (state c)(TOKEN_CACHE \<mapsto> JStr (model_dump_json E creds))\<rparr>)
                    | None \<Rightarrow> (Inr ResultsPending, c\<lparr>requested := requested c @ [cfg]\<rparr>))))"

section \<open>The call executor\<close>

definition base_headers :: "(string \<times> string) list" where
  "base_headers = [(''Accept'', ''application/json''), (''Content-Type'', ''application/json'')]"

text \<open>
  The \<open>try\<close> block of \<open>_api_call\<close>: one request with a 30 second timeout is issued
  (and logged in \<open>sent\<close>), \<open>raise_for_status\<close> raises \<open>HTTPStatusError\<close> for every
  status outside 200..299, an empty body gives \<open>{}\<close>, and the only handler is
  \<open>except httpx.HTTPStatusError\<close>: every other exception leaves the function.
\<close>

definition send_request ::
  "ext \<Rightarrow> world \<Rightarrow> (string \<times> string) option \<Rightarrow> (string \<times> string) list \<Rightarrow>
   string \<Rightarrow> string \<Rightarrow> string \<Rightarrow> dict option \<Rightarrow> dict option \<Rightarrow> (exn + dict) \<times> world" where
  "send_request E w auth headers endpoint method path json_data params =
     (let req = \<lparr> req_method = method, req_url = endpoint @ path, req_headers = headers,
                  req_auth = auth, req_params = params, req_json = json_data, req_timeout = 30 \<rparr>;
          w' = w\<lparr>sent := sent w @ [req]\<rparr>;
          body = (case server E (sent w) req of
                    Inl e \<Rightarrow> Inl e
                  | Inr resp \<Rightarrow>
                      if 200 \<le> status_code resp \<and> status_code resp \<le> 299
                      then (if resp_text resp \<noteq> []
                            then (case resp_json resp of Inl e \<Rightarrow> Inl e | Inr v \<Rightarrow> Inr (ResultsSuccess v))
                            else Inr (ResultsSuccess (JObj [])))
                      else Inl (HTTPStatusError (status_error resp)))
      in (case body of
            Inl (HTTPStatusError m) \<Rightarrow>
              (Inr (ResultsError (''An error occurred while calling Jira API endpoint '' @ endpoint @ '': '' @ m)), w')
          | Inl e \<Rightarrow> (Inl e, w')
          | Inr r \<Rightarrow> (Inr r, w')))"

text \<open>The token of the hosting platform: read from the session state under
  \<open>"temp:" + auth_id\<close> when \<open>AGENTSPACE_AUTH_ID\<close>, the context and its state are truthy.\<close>

definition delegated_token :: "ext \<Rightarrow> world \<Rightarrow> json" where
  "delegated_token E w =
     (case tc w of
        None \<Rightarrow> JNull
      | Some c \<Rightarrow>
          if env_truthy (getenv E ''AGENTSPACE_AUTH_ID'') \<and> state_bool E (state c)
          then state_get (state c) (''temp:'' @ the (getenv E ''AGENTSPACE_AUTH_ID''))
          else JNull)"

text \<open>The branch of the \<open>if\<close>/\<open>elif\<close>/\<open>else\<close> chain of \<open>_api_call\<close> that is taken.\<close>

datatype strategy = Delegated | StaticPAT | ManagedOAuth

definition select_strategy :: "ext \<Rightarrow> world \<Rightarrow> strategy" where
  "select_strategy E w =
     (if truthy (delegated_token E w) then Delegated
      else if env_truthy (getenv E ''JIRA_USERNAME'') \<and> env_truthy (getenv E ''JIRA_API_TOKEN'') then StaticPAT
      else ManagedOAuth)"

text \<open>The \<open>else\<close> branch of \<open>_api_call\<close> (OAuth mode) up to and including the request.\<close>

definition oauth_api_call ::
  "ext \<Rightarrow> world \<Rightarrow> string \<Rightarrow> string \<Rightarrow> string \<Rightarrow> dict option \<Rightarrow> dict option \<Rightarrow> (exn + dict) \<times> world" where
  "oauth_api_call E w endpoint method path json_data params =
     (case tc w of
        None \<Rightarrow> (Inr (ResultsError ''no tool_context when running in OAuth mode''), w)
      | Some c \<Rightarrow>
          if \<not> state_bool E (state c)
          then (Inr (ResultsError ''no tool_context when running in OAuth mode''), w)
          else
            (let rc = refresh_credentials E c;
                 w' = w\<lparr>tc := Some (snd rc)\<rparr>
             in case fst rc of
                  Inl e \<Rightarrow> (Inl e, w')
                | Inr r \<Rightarrow>
                    if \<not> is_success r then (Inr r, w')
                    else
                      (case model_validate_json E (state_get (state (snd rc)) TOKEN_CACHE) of
                         Inl e \<Rightarrow> (Inl e, w')
                       | Inr creds \<Rightarrow>
                           (let err = (Inr (ResultsError (''no credentials when running in OAuth mode only ''
                                                           @ cred_repr E creds)), w')
                            in case oauth2 creds of
                                 None \<Rightarrow> err
                               | Some oa \<Rightarrow>
                                   (case access_token oa of
                                      None \<Rightarrow> err
                                    | Some t \<Rightarrow>
                                        if t = [] then err
                                        else send_request E w' None
                                               (AList.update ''Authorization'' (''Bearer '' @ t) base_headers)
                                               endpoint method path json_data params)))))"

text \<open>\<open>_api_call\<close>.\<close>

definition api_call ::
  "ext \<Rightarrow> world \<Rightarrow> string \<Rightarrow> string \<Rightarrow> string \<Rightarrow> dict option \<Rightarrow> dict option \<Rightarrow> (exn + dict) \<times> world" where
  "api_call E w endpoint method path json_data params =
     (case select_strategy E w of
        Delegated \<Rightarrow>
          send_request E w None
            (AList.update ''Authorization'' (''Bearer '' @ py_str E (delegated_token E w)) base_headers)
            endpoint method path json_data params
      | StaticPAT \<Rightarrow>
          send_request E w
            (Some (case_option [] id (getenv E ''JIRA_USERNAME''), case_option [] id (getenv E ''JIRA_API_TOKEN'')))
            base_headers endpoint method path json_data params
      | ManagedOAuth \<Rightarrow> oauth_api_call E w endpoint method path json_data params)"

section \<open>The tenant resolver\<close>

text \<open>\<open>d[k]\<close> on a result dictionary and on the session state.\<close>

definition dict_getitem :: "dict \<Rightarrow> string \<Rightarrow> exn + json" where
  "dict_getitem d k = (case map_of d k of None \<Rightarrow> Inl (KeyError k) | Some v \<Rightarrow> Inr v)"

text \<open>
  Storing under a key, \<open>d[k] = v\<close>. Lists and dictionaries are not hashable. Python
  compares keys with \<open>==\<close>, for which \<open>True\<close> is 1 and \<open>False\<close> is 0; a key that is
  already there keeps its place and its first spelling, and gets the new value.
\<close>

fun hashable :: "json \<Rightarrow> bool" where
  "hashable (JArr xs) = False"
| "hashable (JObj kv) = False"
| "hashable _ = True"

fun hash_key :: "json \<Rightarrow> json" where
  "hash_key (JBool b) = JInt (if b then 1 else 0)"
| "hash_key k = k"

fun dict_store :: "json \<Rightarrow> json \<Rightarrow> (json \<times> json) list \<Rightarrow> (json \<times> json) list" where
  "dict_store k v [] = [(k, v)]"
| "dict_store k v (p # ps) =
     (if hash_key (fst p) = hash_key k then (fst p, v) # ps else p # dict_store k v ps)"

text \<open>
  The dictionary comprehension that builds the tenant cache from the discovery answer:
  for each item \<open>k\<close> the key \<open>k["url"]\<close> is evaluated, then the value
  \<open>{"id": k["id"], "name": k["name"]}\<close>, then the pair is stored; an unhashable url
  raises \<open>TypeError\<close> at that point.
\<close>

fun instance_cache_of :: "json list \<Rightarrow> (json \<times> json) list \<Rightarrow> exn + (json \<times> json) list" where
  "instance_cache_of [] acc = Inr acc"
| "instance_cache_of (k # ks) acc =
     (case py_getitem k ''url'' of
        Inl e \<Rightarrow> Inl e
      | Inr url \<Rightarrow>
          (case py_getitem k ''id'' of
             Inl e \<Rightarrow> Inl e
           | Inr i \<Rightarrow>
               (case py_getitem k ''name'' of
                  Inl e \<Rightarrow> Inl e
                | Inr n \<Rightarrow>
                    if hashable url
                    then instance_cache_of ks
                           (dict_store url (JObj [(JStr ''id'', i), (JStr ''name'', n)]) acc)
                    else Inl TypeError)))"

text \<open>The last statement of \<open>auth_list_jira_instances\<close>:
  \<open>return ResultsSuccess(tool_context.state[JIRA_INSTANCE_CACHE])\<close>.\<close>

definition return_instance_cache :: "world \<Rightarrow> (exn + dict) \<times> world" where
  "return_instance_cache w =
     (case tc w of
        None \<Rightarrow> (Inl AttributeError, w)
      | Some c \<Rightarrow>
          (case state c JIRA_INSTANCE_CACHE of
             None \<Rightarrow> (Inl (KeyError JIRA_INSTANCE_CACHE), w)
           | Some v \<Rightarrow> (Inr (ResultsSuccess v), w)))"

text \<open>\<open>auth_list_jira_instances\<close>.\<close>

definition auth_list_jira_instances :: "ext \<Rightarrow> world \<Rightarrow> (exn + dict) \<times> world" where
  "auth_list_jira_instances E w =
     (if env_truthy (getenv E ''JIRA_INSTANCE'')
      then (Inr (ResultsSuccess (JObj [(JStr (the (getenv E ''JIRA_INSTANCE'')),
                                        JObj [(JStr ''id'', JNull), (JStr ''name'', JStr [])])])), w)
      else
        (case tc w of
           None \<Rightarrow> (Inr (ResultsError ''no tool_context when running in OAuth mode''), w)
         | Some c \<Rightarrow>
             if \<not> state_bool E (state c)
             then (Inr (ResultsError ''no tool_context when running in OAuth mode''), w)
             else if \<not> truthy (state_get (state c) JIRA_INSTANCE_CACHE)
             then
               (let ac = api_call E w ''https://api.atlassian.com'' ''GET''
                           ''/oauth/token/accessible-resources'' None None;
                    w' = snd ac
                in case fst ac of
                     Inl e \<Rightarrow> (Inl e, w')
                   | Inr r \<Rightarrow>
                       if \<not> is_success r then (Inr r, w')
                       else
                         (case dict_getitem r ''data'' of
                            Inl e \<Rightarrow> (Inl e, w')
                          | Inr d \<Rightarrow>
                              (case py_iter d of
                                 Inl e \<Rightarrow> (Inl e, w')
                               | Inr ks \<Rightarrow>
                                   (case instance_cache_of ks [] of
                                      Inl e \<Rightarrow> (Inl e, w')
                                    | Inr cache \<Rightarrow>
                                        return_instance_cache
                                          (w'\<lparr>tc := map_option
                                                 (\<lambda>c'. c'\<lparr>state := (state c')(JIRA_INSTANCE_CACHE \<mapsto> JObj cache)\<rparr>)
                                                 (tc w')\<rparr>)))))
             else return_instance_cache w))"

text \<open>The argument of \<open>ResultsError\<close> at the unknown-tenant exit of \<open>jira_api_call\<close>.
  In the source it is an ordinary string literal (it has no \<open>f\<close> prefix), so the text
  between its braces is not interpolated.\<close>

definition unknown_instance_message :: string where
  "unknown_instance_message = ''Jira instance {jira_instance} not in list {', '.join(r['data'].keys())}''"

text \<open>\<open>jira_api_call\<close>.\<close>

definition jira_api_call ::
  "ext \<Rightarrow> world \<Rightarrow> string \<Rightarrow> string \<Rightarrow> string \<Rightarrow> dict option \<Rightarrow> dict option \<Rightarrow> (exn + dict) \<times> world" where
  "jira_api_call E w jira_instance method path json_data params =
     (let al = auth_list_jira_instances E w;
          w' = snd al
      in case fst al of
           Inl e \<Rightarrow> (Inl e, w')
         | Inr r \<Rightarrow>
             if \<not> is_success r then (Inr r, w')
             else
               (case dict_getitem r ''data'' of
                  Inl e \<Rightarrow> (Inl e, w')
                | Inr d \<Rightarrow>
                    (case py_in jira_instance d of
                       Inl e \<Rightarrow> (Inl e, w')
                     | Inr member \<Rightarrow>
                         if \<not> member
                         then (Inr (ResultsError unknown_instance_message), w')
                         else
                           (case py_getitem d jira_instance of
                              Inl e \<Rightarrow> (Inl e, w')
                            | Inr inst \<Rightarrow>
                                (case py_get inst ''id'' JNull of
                                   Inl e \<Rightarrow> (Inl e, w')
                                 | Inr instance_id \<Rightarrow>
                                     api_call E w'
                                       (if truthy instance_id
                                        then ''https://api.atlassian.com/ex/jira/'' @ py_str E instance_id
                                        else jira_instance)
                                       method path json_data params)))))"

section \<open>The paginated list operations\<close>

text \<open>
  One iteration of the \<open>while True\<close> loop of \<open>list_jira_issues\<close>, on the loop state
  \<open>(start_at, all_issues, world)\<close>: \<open>Inl\<close> is what the function returns (or raises)
  when the iteration leaves the loop, \<open>Inr\<close> is the state of the next iteration.
\<close>

definition jira_issues_iter ::
  "ext \<Rightarrow> string \<Rightarrow> string \<Rightarrow> int \<times> json list \<times> world \<Rightarrow>
   ((exn + dict) \<times> world) + (int \<times> json list \<times> world)" where
  "jira_issues_iter E jira_instance jql s =
     (let start_at = fst s; all_issues = fst (snd s); w = snd (snd s);
          max_results = 100;
          params = [(''jql'', JStr jql), (''startAt'', JInt start_at), (''maxResults'', JInt max_results)];
          call = jira_api_call E w jira_instance ''GET'' ''/rest/api/3/search'' None (Some params);
          w' = snd call
      in case fst call of
           Inl e \<Rightarrow> Inl (Inl e, w')
         | Inr data \<Rightarrow>
             if \<not> is_success data then Inl (Inr data, w')
             else
               (case dict_getitem data ''data'' of
                  Inl e \<Rightarrow> Inl (Inl e, w')
                | Inr d \<Rightarrow>
                    (case py_get d ''issues'' (JArr []) of
                       Inl e \<Rightarrow> Inl (Inl e, w')
                     | Inr issues \<Rightarrow>
                         (case py_iter issues of
                            Inl e \<Rightarrow> Inl (Inl e, w')
                          | Inr items \<Rightarrow>
                              (case py_get d ''total'' (JInt 0) of
                                 Inl e \<Rightarrow> Inl (Inl e, w')
                               | Inr total_issues \<Rightarrow>
                                   (case py_int_ge (start_at + int (length items)) total_issues of
                                      Inl e \<Rightarrow> Inl (Inl e, w')
                                    | Inr fetched_all \<Rightarrow>
                                        if fetched_all
                                        then Inl (Inr [(''status'', JStr ''success''),
                                                       (''data'', JArr (all_issues @ items))], w')
                                        else Inr (start_at + int (length items), all_issues @ items, w')))))))"

text \<open>The loop may run forever; not returning is the value \<open>None\<close>.\<close>

partial_function (option) list_jira_issues_loop ::
  "ext \<Rightarrow> string \<Rightarrow> string \<Rightarrow> int \<times> json list \<times> world \<Rightarrow> ((exn + dict) \<times> world) option" where
  "list_jira_issues_loop E jira_instance jql s =
     (case jira_issues_iter E jira_instance jql s of
        Inl r \<Rightarrow> Some r
      | Inr s' \<Rightarrow> list_jira_issues_loop E jira_instance jql s')"

definition list_jira_issues :: "ext \<Rightarrow> world \<Rightarrow> string \<Rightarrow> string \<Rightarrow> ((exn + dict) \<times> world) option" where
  "list_jira_issues E w jira_instance jql = list_jira_issues_loop E jira_instance jql (0, [], w)"

text \<open>
  One iteration of the loop of \<open>list_jsm_service_projects\<close>, on the loop state
  \<open>(start, all_projects, world)\<close>. The exit test reads \<open>isLastPage\<close> from the result
  dictionary \<open>data\<close> itself, with default \<open>True\<close>.
\<close>

definition jsm_projects_iter ::
  "ext \<Rightarrow> string \<Rightarrow> int \<times> json list \<times> world \<Rightarrow>
   ((exn + dict) \<times> world) + (int \<times> json list \<times> world)" where
  "jsm_projects_iter E jira_instance s =
     (let start = fst s; all_projects = fst (snd s); w = snd (snd s);
          limit = 50;
          params = [(''start'', JInt start), (''limit'', JInt limit)];
          call = jira_api_call E w jira_instance ''GET'' ''/rest/servicedeskapi/servicedesk'' None (Some params);
          w' = snd call
      in case fst call of
           Inl e \<Rightarrow> Inl (Inl e, w')
         | Inr data \<Rightarrow>
             if \<not> is_success data then Inl (Inr data, w')
             else
               (case dict_getitem data ''data'' of
                  Inl e \<Rightarrow> Inl (Inl e, w')
                | Inr d \<Rightarrow>
                    (case py_get d ''values'' (JArr []) of
                       Inl e \<Rightarrow> Inl (Inl e, w')
                     | Inr projects_data \<Rightarrow>
                         (case py_iter projects_data of
                            Inl e \<Rightarrow> Inl (Inl e, w')
                          | Inr items \<Rightarrow>
                              if truthy (dict_get data ''isLastPage'' (JBool True))
                              then Inl (Inr [(''status'', JStr ''success''),
                                             (''data'', JArr (all_projects @ items))], w')
                              else Inr (start + int (length items), all_projects @ items, w')))))"

partial_function (option) list_jsm_service_projects_loop ::
  "ext \<Rightarrow> string \<Rightarrow> int \<times> json list \<times> world \<Rightarrow> ((exn + dict) \<times> world) option" where
  "list_jsm_service_projects_loop E jira_instance s =
     (case jsm_projects_iter E jira_instance s of
        Inl r \<Rightarrow> Some r
      | Inr s' \<Rightarrow> list_jsm_service_projects_loop E jira_instance s')"

definition list_jsm_service_projects :: "ext \<Rightarrow> world \<Rightarrow> string \<Rightarrow> ((exn + dict) \<times> world) option" where
  "list_jsm_service_projects E w jira_instance = list_jsm_service_projects_loop E jira_instance (0, [], w)"

text \<open>Shorthands for the page request that an iteration of each loop makes at a given
  offset, and for the dictionary both operations return at the end.\<close>

abbreviation search_call :: "ext \<Rightarrow> world \<Rightarrow> string \<Rightarrow> string \<Rightarrow> int \<Rightarrow> (exn + dict) \<times> world" where
  "search_call E w jira_instance jql start_at \<equiv>
     jira_api_call E w jira_instance ''GET'' ''/rest/api/3/search'' None
       (Some [(''jql'', JStr jql), (''startAt'', JInt start_at), (''maxResults'', JInt 100)])"

abbreviation desk_call :: "ext \<Rightarrow> world \<Rightarrow> string \<Rightarrow> int \<Rightarrow> (exn + dict) \<times> world" where
  "desk_call E w jira_instance start \<equiv>
     jira_api_call E w jira_instance ''GET'' ''/rest/servicedeskapi/servicedesk'' None
       (Some [(''start'', JInt start), (''limit'', JInt 50)])"

abbreviation success_list :: "json list \<Rightarrow> dict" where
  "success_list items \<equiv> [(''status'', JStr ''success''), (''data'', JArr items)]"

section \<open>Test doubles\<close>

text \<open>
  Stand-ins for the collaborators, used to run the code on concrete inputs. The fake
  credential serialisation stores the access token itself as the JSON text and rejects
  everything that is not a string, as pydantic rejects \<open>None\<close>.
\<close>

definition fake_ext :: "(string \<Rightarrow> string option) \<Rightarrow> (request list \<Rightarrow> request \<Rightarrow> exn + response) \<Rightarrow> ext" where
  "fake_ext env srv =
     \<lparr> getenv = env,
       state_bool = (\<lambda>st. True),
       model_validate_json = (\<lambda>v. case v of
           JStr s \<Rightarrow> Inr \<lparr> auth_type = ''oauth2'',
                          oauth2 = Some \<lparr> client_id = None, client_secret = None, audience = None,
                                          access_token = Some s, refresh_token = None \<rparr> \<rparr>
         | _ \<Rightarrow> Inl ValidationError),
       model_dump_json = (\<lambda>c. case oauth2 c of None \<Rightarrow> [] | Some oa \<Rightarrow> case_option [] id (access_token oa)),
       is_refresh_needed = (\<lambda>c s. Inr False),
       refresh = (\<lambda>c s. Inr c),
       py_repr = (\<lambda>v. ''?''),
       cred_repr = (\<lambda>c. ''?''),
       server = srv \<rparr>"

text \<open>The configuration of the repository's integration tests: a fixed tenant and a
  personal access token.\<close>

definition pat_env :: "string \<Rightarrow> string option" where
  "pat_env = map_of [(''JIRA_INSTANCE'', ''https://a.example''), (''JIRA_USERNAME'', ''user''),
                     (''JIRA_API_TOKEN'', ''secret'')]"

text \<open>A configuration with the OAuth client settings only.\<close>

definition oauth_env :: "string \<Rightarrow> string option" where
  "oauth_env = map_of [(''ADK_OAUTH_CLIENT_ID'', ''client''), (''ADK_OAUTH_CLIENT_SECRET'', ''hush''),
     (''ADK_OAUTH_AUTH_URI'', ''https://auth.example/authorize''),
     (''ADK_OAUTH_TOKEN_URI'', ''https://auth.example/token''),
     (''ADK_OAUTH_SCOPES'', ''offline_access read:jira-work'')]"

definition ok_json :: "json \<Rightarrow> exn + response" where
  "ok_json body = Inr \<lparr> status_code = 200, status_error = [], resp_text = ''(json)'', resp_json = Inr body \<rparr>"

definition param_of :: "string \<Rightarrow> request \<Rightarrow> json" where
  "param_of k req = (case req_params req of None \<Rightarrow> JNull | Some ps \<Rightarrow> dict_get ps k JNull)"

definition issues_page :: "json list \<Rightarrow> int \<Rightarrow> json" where
  "issues_page items tot = JObj [(JStr ''issues'', JArr items), (JStr ''total'', JInt tot)]"

definition projects_page :: "json list \<Rightarrow> bool \<Rightarrow> json" where
  "projects_page vals lastp = JObj [(JStr ''values'', JArr vals), (JStr ''isLastPage'', JBool lastp)]"

definition empty_server :: "request list \<Rightarrow> request \<Rightarrow> exn + response" where
  "empty_server hist req = ok_json (JObj [])"

text \<open>A service desk server with two pages of one project each; only the second page is
  marked as the last one.\<close>

definition two_desks_server :: "request list \<Rightarrow> request \<Rightarrow> exn + response" where
  "two_desks_server hist req =
     (if param_of ''start'' req = JInt 0 then ok_json (projects_page [JStr ''SD1''] False)
      else ok_json (projects_page [JStr ''SD2''] True))"

text \<open>A search server that answers every offset \<open>n\<close> with one issue and the total
  \<open>n + 2\<close>: each page is non-empty and the end is never reached.\<close>

definition growing_server :: "request list \<Rightarrow> request \<Rightarrow> exn + response" where
  "growing_server hist req =
     (case param_of ''startAt'' req of
        JInt n \<Rightarrow> ok_json (issues_page [JInt n] (n + 2))
      | _ \<Rightarrow> ok_json (issues_page [] 0))"

text \<open>A search server with 240 issues in pages of 100, 100 and 40.\<close>

definition three_pages_server :: "request list \<Rightarrow> request \<Rightarrow> exn + response" where
  "three_pages_server hist req =
     (if param_of ''startAt'' req = JInt 0 then ok_json (issues_page (replicate 100 (JStr ''A'')) 240)
      else if param_of ''startAt'' req = JInt 100 then ok_json (issues_page (replicate 100 (JStr ''B'')) 240)
      else ok_json (issues_page (replicate 40 (JStr ''C'')) 240))"

text \<open>A server whose first search page holds 100 of 240 issues and that answers every
  other request with status 500.\<close>

definition error_500 :: response where
  "error_500 = \<lparr> status_code = 500, status_error = ''Server error 500'', resp_text = [],
                 resp_json = Inl JSONDecodeError \<rparr>"

definition failing_server :: "request list \<Rightarrow> request \<Rightarrow> exn + response" where
  "failing_server hist req =
     (if param_of ''startAt'' req = JInt 0 then ok_json (issues_page (replicate 100 (JStr ''A'')) 240)
      else Inr error_500)"

text \<open>A search server with an empty result set: no issue and the total 0, at every
  offset.\<close>

definition no_issues_server :: "request list \<Rightarrow> request \<Rightarrow> exn + response" where
  "no_issues_server hist req = ok_json (issues_page [] 0)"

text \<open>A search server that answers every request with an empty page and the total 5.\<close>

definition stuck_server :: "request list \<Rightarrow> request \<Rightarrow> exn + response" where
  "stuck_server hist req = ok_json (issues_page [] 5)"

text \<open>The request that the code builds in the test configuration for a \<open>GET\<close> with
  query parameters.\<close>

definition pat_request :: "string \<Rightarrow> dict \<Rightarrow> request" where
  "pat_request path ps =
     \<lparr> req_method = ''GET'', req_url = ''https://a.example'' @ path, req_headers = base_headers,
       req_auth = Some (''user'', ''secret''), req_params = Some ps, req_json = None, req_timeout = 30 \<rparr>"

text \<open>A server that cannot be reached in time, and a server that answers 404.\<close>

definition timeout_server :: "request list \<Rightarrow> request \<Rightarrow> exn + response" where
  "timeout_server hist req = Inl (RequestError ''timed out'')"

definition not_found_message :: string where
  "not_found_message = ''Client error 404 Not Found for url https://a.example/rest/api/3/issue/X-1''"

definition not_found_server :: "request list \<Rightarrow> request \<Rightarrow> exn + response" where
  "not_found_server hist req =
     Inr \<lparr> status_code = 404, status_error = not_found_message, resp_text = [],
           resp_json = Inl JSONDecodeError \<rparr>"

text \<open>A configuration with a platform auth identifier and a personal access token, and a
  session that carries the platform's token.\<close>

definition agentspace_env :: "string \<Rightarrow> string option" where
  "agentspace_env = map_of [(''AGENTSPACE_AUTH_ID'', ''jira-auth''), (''JIRA_USERNAME'', ''user''),
                            (''JIRA_API_TOKEN'', ''secret'')]"

definition platform_session :: tool_context where
  "platform_session = \<lparr> state = [''temp:jira-auth'' \<mapsto> JStr ''platform-token''],
                         auth_response = (\<lambda>cfg. None), requested = [] \<rparr>"

text \<open>A session with an empty state and no completed consent.\<close>

definition fresh_session :: tool_context where
  "fresh_session = \<lparr> state = Map.empty, auth_response = (\<lambda>cfg. None), requested = [] \<rparr>"

text \<open>No session context and nothing sent yet, as in the integration tests.\<close>

definition no_context :: world where
  "no_context = \<lparr> tc = None, sent = [] \<rparr>"

text \<open>A refresher whose refresh attempt fails (the refresh token was revoked), and a
  session that holds a stored credential.\<close>

definition revoked_ext :: ext where
  "revoked_ext = (fake_ext oauth_env empty_server)
     \<lparr> is_refresh_needed := (\<lambda>c s. Inr True), refresh := (\<lambda>c s. Inl (RequestError ''invalid_grant'')) \<rparr>"

definition stale_session :: tool_context where
  "stale_session = \<lparr> state = [TOKEN_CACHE \<mapsto> JStr ''old-token''], auth_response = (\<lambda>cfg. None), requested = [] \<rparr>"

text \<open>A session whose tenant cache holds the single tenant \<open>https://a.example\<close>.\<close>

definition cached_session :: tool_context where
  "cached_session = \<lparr> state = [JIRA_INSTANCE_CACHE \<mapsto>
        JObj [(JStr ''https://a.example'', JObj [(JStr ''id'', JStr ''1234''), (JStr ''name'', JStr ''A'')])]],
      auth_response = (\<lambda>cfg. None), requested = [] \<rparr>"

section \<open>Basic facts\<close>

lemma is_success_simps:
  "is_success (ResultsSuccess d)" "\<not> is_success (ResultsError m)" "\<not> is_success ResultsPending"
  by (simp_all add: is_success_def ResultsSuccess_def ResultsError_def ResultsPending_def)

lemma dict_getitem_success: "dict_getitem (ResultsSuccess d) ''data'' = Inr d"
  by (simp add: dict_getitem_def ResultsSuccess_def)

text \<open>The tenant cache accepts every hashable url and refuses an unhashable one.\<close>

lemma instance_cache_of_examples:
  "instance_cache_of [JObj [(JStr ''url'', JNull), (JStr ''id'', JStr ''1''), (JStr ''name'', JStr ''N'')]] [] =
     Inr [(JNull, JObj [(JStr ''id'', JStr ''1''), (JStr ''name'', JStr ''N'')])]"
  "instance_cache_of [JObj [(JStr ''url'', JInt 1), (JStr ''id'', JStr ''1''), (JStr ''name'', JStr ''N'')],
                      JObj [(JStr ''url'', JBool True), (JStr ''id'', JStr ''2''), (JStr ''name'', JStr ''M'')]] [] =
     Inr [(JInt 1, JObj [(JStr ''id'', JStr ''2''), (JStr ''name'', JStr ''M'')])]"
  "instance_cache_of [JObj [(JStr ''url'', JArr []), (JStr ''id'', JStr ''1''), (JStr ''name'', JStr ''N'')]] [] =
     Inl TypeError"
  by simp_all

text \<open>With a fixed tenant and a personal access token configured (and no platform auth
  identifier), a call against the fixed tenant is one Basic-auth request.\<close>

lemma jira_api_call_pat:
  assumes "getenv E ''JIRA_INSTANCE'' = Some inst" "inst \<noteq> []"
    and "getenv E ''JIRA_USERNAME'' = Some u" "u \<noteq> []"
    and "getenv E ''JIRA_API_TOKEN'' = Some p" "p \<noteq> []"
    and "getenv E ''AGENTSPACE_AUTH_ID'' = None"
  shows "jira_api_call E w inst m path j ps = send_request E w (Some (u, p)) base_headers inst m path j ps"
proof -
  have tok: "delegated_token E w = JNull"
    using assms(7) by (simp add: delegated_token_def split: option.splits)
  have sel: "select_strategy E w = StaticPAT"
    using assms tok by (simp add: select_strategy_def)
  have al: "auth_list_jira_instances E w =
      (Inr (ResultsSuccess (JObj [(JStr inst, JObj [(JStr ''id'', JNull), (JStr ''name'', JStr [])])])), w)"
    using assms(1,2) by (simp add: auth_list_jira_instances_def)
  show ?thesis
    using assms(3,5) sel
    by (simp add: jira_api_call_def al is_success_simps dict_getitem_success dict_get_def api_call_def)
qed

lemma fake_ext_sel:
  "getenv (fake_ext env srv) = env"
  "server (fake_ext env srv) = srv"
  "state_bool (fake_ext env srv) st = True"
  "model_validate_json (fake_ext env srv) JNull = Inl ValidationError"
  "model_validate_json (fake_ext env srv) (JStr s) =
     Inr \<lparr> auth_type = ''oauth2'',
           oauth2 = Some \<lparr> client_id = None, client_secret = None, audience = None,
                           access_token = Some s, refresh_token = None \<rparr> \<rparr>"
  "is_refresh_needed (fake_ext env srv) c sch = Inr False"
  by (simp_all add: fake_ext_def)

lemma fake_pat_call:
  "jira_api_call (fake_ext pat_env srv) w ''https://a.example'' m path j ps =
   send_request (fake_ext pat_env srv) w (Some (''user'', ''secret'')) base_headers ''https://a.example'' m path j ps"
  by (rule jira_api_call_pat) (simp_all add: fake_ext_sel pat_env_def)

lemma fake_pat_ok:
  assumes "srv (sent w) (pat_request path ps) = ok_json body"
  shows "jira_api_call (fake_ext pat_env srv) w ''https://a.example'' ''GET'' path None (Some ps) =
     (Inr (ResultsSuccess body), w\<lparr>sent := sent w @ [pat_request path ps]\<rparr>)"
  using assms
  by (simp add: fake_pat_call send_request_def fake_ext_sel pat_request_def ok_json_def)

lemma fake_pat_status_error:
  assumes "srv (sent w) (pat_request path ps) = Inr resp"
    and "\<not> (200 \<le> status_code resp \<and> status_code resp \<le> 299)"
  shows "jira_api_call (fake_ext pat_env srv) w ''https://a.example'' ''GET'' path None (Some ps) =
     (Inr (ResultsError (''An error occurred while calling Jira API endpoint https://a.example: ''
                         @ status_error resp)),
      w\<lparr>sent := sent w @ [pat_request path ps]\<rparr>)"
  using assms
  by (cases "200 \<le> status_code resp"; cases "status_code resp \<le> 299")
     (simp_all add: fake_pat_call send_request_def fake_ext_sel pat_request_def)

lemma param_of_pat_request: "param_of k (pat_request path ps) = dict_get ps k JNull"
  by (simp add: param_of_def pat_request_def)

section \<open>Refresh failure\<close>

text \<open>
  C1. The claim: when a stored credential needs a refresh and the refresh attempt fails,
  the refresh step clears the stored credential and the current call's outcome is an
  Error. The code, run on a session with a stored credential and a refresher whose
  refresh raises: the stored credential is replaced by \<open>None\<close>, but the refresh step
  returns \<open>ResultsSuccess()\<close>, which \<open>is_success\<close> accepts; \<open>_api_call\<close> then goes on to
  deserialise the cleared entry and leaves with the exception of the deserialiser
  instead of returning an Error.
\<close>

theorem C1_refresh_failure_reported_as_success:
  "refresh_credentials revoked_ext stale_session =
     (Inr (ResultsSuccess JNull), stale_session\<lparr>state := [TOKEN_CACHE \<mapsto> JNull]\<rparr>)
   \<and> is_success (ResultsSuccess JNull)
   \<and> fst (api_call revoked_ext \<lparr> tc = Some stale_session, sent = [] \<rparr> ''https://a.example'' ''GET'' ''/x'' None None)
       = Inl ValidationError"
proof (intro conjI)
  show "refresh_credentials revoked_ext stale_session =
     (Inr (ResultsSuccess JNull), stale_session\<lparr>state := [TOKEN_CACHE \<mapsto> JNull]\<rparr>)"
    by (simp add: refresh_credentials_def get_auth_sheme_and_credential_def revoked_ext_def fake_ext_def
        oauth_env_def stale_session_def state_get_def Let_def)
  show "is_success (ResultsSuccess JNull)"
    by (simp add: is_success_simps)
  show "fst (api_call revoked_ext \<lparr> tc = Some stale_session, sent = [] \<rparr> ''https://a.example'' ''GET'' ''/x'' None None)
       = Inl ValidationError"
    by (simp add: api_call_def select_strategy_def delegated_token_def oauth_api_call_def
        refresh_credentials_def get_auth_sheme_and_credential_def revoked_ext_def fake_ext_def
        oauth_env_def stale_session_def state_get_def Let_def is_success_simps)
qed

section \<open>The is-last-page aggregator\<close>

text \<open>
  C3. The claim: \<open>list_jsm_service_projects\<close> stops exactly when the response body marks
  the page as the last one, and keeps requesting the next page while the body says
  \<open>isLastPage: false\<close>. The code, run against a server whose first page says
  \<open>isLastPage: false\<close> and whose second page says \<open>isLastPage: true\<close>: it returns after
  the first page with the first page's project only, having sent a single request.
\<close>

theorem C3_service_projects_stop_after_first_page:
  "list_jsm_service_projects (fake_ext pat_env two_desks_server) no_context ''https://a.example'' =
   Some (Inr (success_list [JStr ''SD1'']),
         no_context\<lparr>sent := [pat_request ''/rest/servicedeskapi/servicedesk''
                                 [(''start'', JInt 0), (''limit'', JInt 50)]]\<rparr>)"
proof -
  have call: "desk_call (fake_ext pat_env two_desks_server) no_context ''https://a.example'' 0 =
      (Inr (ResultsSuccess (projects_page [JStr ''SD1''] False)),
       no_context\<lparr>sent := sent no_context @ [pat_request ''/rest/servicedeskapi/servicedesk''
                                 [(''start'', JInt 0), (''limit'', JInt 50)]]\<rparr>)"
    by (rule fake_pat_ok) (simp add: two_desks_server_def param_of_pat_request dict_get_def)
  have "jsm_projects_iter (fake_ext pat_env two_desks_server) ''https://a.example'' (0, [], no_context) =
      Inl (Inr (success_list [JStr ''SD1'']),
         no_context\<lparr>sent := [pat_request ''/rest/servicedeskapi/servicedesk''
                                 [(''start'', JInt 0), (''limit'', JInt 50)]]\<rparr>)"
    by (simp add: jsm_projects_iter_def call is_success_simps dict_getitem_success projects_page_def
        dict_get_def)
       (simp add: ResultsSuccess_def no_context_def)
  then show ?thesis
    by (simp add: list_jsm_service_projects_def list_jsm_service_projects_loop.simps)
qed

section \<open>Unknown tenant\<close>

text \<open>
  C4. The claim: for a tenant reference that is not a key of the resolved tenant cache,
  \<open>jira_api_call\<close> returns an Error whose message names the unknown reference and lists
  the known tenants. The code, run with the cache \<open>{"https://a.example": ...}\<close> and the
  reference \<open>https://b.example\<close>: it returns an Error, without any request, whose message
  is the uninterpolated literal; neither \<open>a.example\<close> nor \<open>b.example\<close> occurs in it.
\<close>

theorem C4_unknown_tenant_message_not_interpolated:
  "jira_api_call (fake_ext oauth_env empty_server) \<lparr> tc = Some cached_session, sent = [] \<rparr>
      ''https://b.example'' ''GET'' ''/rest/api/3/serverInfo'' None None
     = (Inr (ResultsError unknown_instance_message), \<lparr> tc = Some cached_session, sent = [] \<rparr>)
   \<and> \<not> sublist ''a.example'' unknown_instance_message
   \<and> \<not> sublist ''b.example'' unknown_instance_message"
proof (intro conjI)
  show "jira_api_call (fake_ext oauth_env empty_server) \<lparr> tc = Some cached_session, sent = [] \<rparr>
      ''https://b.example'' ''GET'' ''/rest/api/3/serverInfo'' None None
     = (Inr (ResultsError unknown_instance_message), \<lparr> tc = Some cached_session, sent = [] \<rparr>)"
    by (simp add: jira_api_call_def auth_list_jira_instances_def fake_ext_def oauth_env_def cached_session_def
        state_get_def return_instance_cache_def is_success_simps dict_getitem_success Let_def
        JIRA_INSTANCE_CACHE_def)
  show "\<not> sublist ''a.example'' unknown_instance_message"
    by (simp add: unknown_instance_message_def sublist_code prefix_code)
  show "\<not> sublist ''b.example'' unknown_instance_message"
    by (simp add: unknown_instance_message_def sublist_code prefix_code)
qed

section \<open>The offset/total aggregator\<close>

text \<open>What one iteration of \<open>list_jira_issues\<close> does with a successful page whose
  issues are a list and whose total is an integer.\<close>

lemma jira_issues_iter_page:
  assumes "fst (search_call E w inst jql n) = Inr data" "is_success data"
    and "dict_getitem data ''data'' = Inr d"
    and "py_get d ''issues'' (JArr []) = Inr (JArr items)"
    and "py_get d ''total'' (JInt 0) = Inr (JInt tot)"
  shows "jira_issues_iter E inst jql (n, acc, w) =
     (if n + int (length items) \<ge> tot
      then Inl (Inr (success_list (acc @ items)), snd (search_call E w inst jql n))
      else Inr (n + int (length items), acc @ items, snd (search_call E w inst jql n)))"
  using assms by (simp add: jira_issues_iter_def Let_def)

lemma jira_issues_iter_abort:
  assumes "fst (search_call E w inst jql n) = Inr r" "\<not> is_success r"
  shows "jira_issues_iter E inst jql (n, acc, w) = Inl (Inr r, snd (search_call E w inst jql n))"
  using assms by (simp add: jira_issues_iter_def Let_def)

lemma jsm_projects_iter_abort:
  assumes "fst (desk_call E w inst n) = Inr r" "\<not> is_success r"
  shows "jsm_projects_iter E inst (n, acc, w) = Inl (Inr r, snd (desk_call E w inst n))"
  using assms by (simp add: jsm_projects_iter_def Let_def)

text \<open>The loops commute with the iterations that continue.\<close>

lemma jira_loop_steps:
  assumes "rtranclp (\<lambda>s s'. jira_issues_iter E inst jql s = Inr s') s0 s"
  shows "list_jira_issues_loop E inst jql s0 = list_jira_issues_loop E inst jql s"
  using assms
proof (induction rule: rtranclp_induct)
  case base
  show ?case by simp
next
  case (step y z)
  have "list_jira_issues_loop E inst jql y = list_jira_issues_loop E inst jql z"
    using step.hyps(2) by (subst list_jira_issues_loop.simps) simp
  with step.IH show ?case by simp
qed

lemma jsm_loop_steps:
  assumes "rtranclp (\<lambda>s s'. jsm_projects_iter E inst s = Inr s') s0 s"
  shows "list_jsm_service_projects_loop E inst s0 = list_jsm_service_projects_loop E inst s"
  using assms
proof (induction rule: rtranclp_induct)
  case base
  show ?case by simp
next
  case (step y z)
  have "list_jsm_service_projects_loop E inst y = list_jsm_service_projects_loop E inst z"
    using step.hyps(2) by (subst list_jsm_service_projects_loop.simps) simp
  with step.IH show ?case by simp
qed

text \<open>In a run from the start, the offset is the number of issues accumulated so far.\<close>

lemma jira_issues_iter_continues:
  assumes "jira_issues_iter E inst jql (n, acc, w) = Inr (n', acc', w')"
  shows "\<exists>items. n' = n + int (length items) \<and> acc' = acc @ items"
  using assms
  by (auto simp add: jira_issues_iter_def Let_def split: sum.splits if_splits)

lemma jira_offset_is_count:
  assumes "rtranclp (\<lambda>s s'. jira_issues_iter E inst jql s = Inr s') (0, [], w0) s"
  shows "fst s = int (length (fst (snd s)))"
  using assms
proof (induction rule: rtranclp_induct)
  case base
  show ?case by simp
next
  case (step y z)
  obtain n acc w where y: "y = (n, acc, w)" by (cases y) auto
  obtain n' acc' w' where z: "z = (n', acc', w')" by (cases z) auto
  from step.hyps(2) y z jira_issues_iter_continues[of E inst jql n acc w n' acc' w']
  obtain items where "n' = n + int (length items)" "acc' = acc @ items"
    by auto
  with step.IH y z show ?case by simp
qed

text \<open>
  Termination of a run from the start: every page that the loop requests is successful,
  is non-empty unless it reaches its total, and reports a total of at most \<open>T\<close>. Only
  the loop states of the run itself are constrained. The run then ends with a Success.
\<close>

lemma jira_loop_terminates:
  assumes pages: "\<And>n acc w.
      rtranclp (\<lambda>s s'. jira_issues_iter E inst jql s = Inr s') (0, [], w0) (n, acc, w) \<Longrightarrow>
      \<exists>data d items tot.
        fst (search_call E w inst jql n) = Inr data \<and> is_success data
        \<and> dict_getitem data ''data'' = Inr d
        \<and> py_get d ''issues'' (JArr []) = Inr (JArr items)
        \<and> py_get d ''total'' (JInt 0) = Inr (JInt tot)
        \<and> (items \<noteq> [] \<or> tot \<le> n + int (length items)) \<and> tot \<le> T"
  shows "rtranclp (\<lambda>s s'. jira_issues_iter E inst jql s = Inr s') (0, [], w0) (n, acc, w) \<Longrightarrow>
         \<exists>found w'. list_jira_issues_loop E inst jql (n, acc, w) = Some (Inr (success_list found), w')"
proof (induction "nat (T - n)" arbitrary: n acc w rule: less_induct)
  case less
  from pages[OF less.prems] obtain data d items tot where
    call: "fst (search_call E w inst jql n) = Inr data" "is_success data"
      "dict_getitem data ''data'' = Inr d"
      "py_get d ''issues'' (JArr []) = Inr (JArr items)"
      "py_get d ''total'' (JInt 0) = Inr (JInt tot)"
    and nonempty: "items \<noteq> [] \<or> tot \<le> n + int (length items)"
    and bound: "tot \<le> T"
    by blast
  note it = jira_issues_iter_page[OF call, of acc]
  show ?case
  proof (cases "n + int (length items) \<ge> tot")
    case True
    with it show ?thesis
      by (subst list_jira_issues_loop.simps) simp
  next
    case False
    with nonempty have "items \<noteq> []"
      by blast
    then have "length items > 0" by simp
    with False bound have smaller: "nat (T - (n + int (length items))) < nat (T - n)"
      by linarith
    from it False have next_state: "jira_issues_iter E inst jql (n, acc, w) =
        Inr (n + int (length items), acc @ items, snd (search_call E w inst jql n))"
      by simp
    with less.prems have "rtranclp (\<lambda>s s'. jira_issues_iter E inst jql s = Inr s') (0, [], w0)
        (n + int (length items), acc @ items, snd (search_call E w inst jql n))"
      by (rule rtranclp.rtrancl_into_rtrancl)
    from less.hyps[OF smaller this]
    obtain found w' where "list_jira_issues_loop E inst jql
        (n + int (length items), acc @ items, snd (search_call E w inst jql n)) =
        Some (Inr (success_list found), w')"
      by blast
    with next_state show ?thesis
      by (subst list_jira_issues_loop.simps) simp
  qed
qed

text \<open>The test servers, seen through \<open>jira_api_call\<close>.\<close>

lemma three_pages_call:
  "search_call (fake_ext pat_env three_pages_server) w ''https://a.example'' jql n =
     (Inr (ResultsSuccess (issues_page
             (if n = 0 then replicate 100 (JStr ''A'')
              else if n = 100 then replicate 100 (JStr ''B'')
              else replicate 40 (JStr ''C'')) 240)),
      w\<lparr>sent := sent w @ [pat_request ''/rest/api/3/search''
                            [(''jql'', JStr jql), (''startAt'', JInt n), (''maxResults'', JInt 100)]]\<rparr>)"
  by (rule fake_pat_ok) (simp add: three_pages_server_def param_of_pat_request dict_get_def)

lemma growing_call:
  "search_call (fake_ext pat_env growing_server) w ''https://a.example'' jql n =
     (Inr (ResultsSuccess (issues_page [JInt n] (n + 2))),
      w\<lparr>sent := sent w @ [pat_request ''/rest/api/3/search''
                            [(''jql'', JStr jql), (''startAt'', JInt n), (''maxResults'', JInt 100)]]\<rparr>)"
  by (rule fake_pat_ok) (simp add: growing_server_def param_of_pat_request dict_get_def)

lemma stuck_call:
  "search_call (fake_ext pat_env stuck_server) w ''https://a.example'' jql n =
     (Inr (ResultsSuccess (issues_page [] 5)),
      w\<lparr>sent := sent w @ [pat_request ''/rest/api/3/search''
                            [(''jql'', JStr jql), (''startAt'', JInt n), (''maxResults'', JInt 100)]]\<rparr>)"
  by (rule fake_pat_ok) (simp add: stuck_server_def)

lemma no_issues_call:
  "search_call (fake_ext pat_env no_issues_server) w ''https://a.example'' jql n =
     (Inr (ResultsSuccess (issues_page [] 0)),
      w\<lparr>sent := sent w @ [pat_request ''/rest/api/3/search''
                            [(''jql'', JStr jql), (''startAt'', JInt n), (''maxResults'', JInt 100)]]\<rparr>)"
  by (rule fake_pat_ok) (simp add: no_issues_server_def)

lemma issues_page_get:
  "py_get (issues_page items tot) ''issues'' (JArr []) = Inr (JArr items)"
  "py_get (issues_page items tot) ''total'' (JInt 0) = Inr (JInt tot)"
  by (simp_all add: issues_page_def dict_get_def)

text \<open>Against the growing server every iteration continues, so the loop returns nothing.\<close>

lemma growing_iter:
  "\<exists>s'. jira_issues_iter (fake_ext pat_env growing_server) ''https://a.example'' jql s = Inr s'"
proof -
  obtain n acc w where s: "s = (n, acc, w)"
    by (cases s) auto
  have "jira_issues_iter (fake_ext pat_env growing_server) ''https://a.example'' jql (n, acc, w) =
      Inr (n + 1, acc @ [JInt n], snd (search_call (fake_ext pat_env growing_server) w ''https://a.example'' jql n))"
    by (subst jira_issues_iter_page[where data = "ResultsSuccess (issues_page [JInt n] (n + 2))"
          and d = "issues_page [JInt n] (n + 2)" and items = "[JInt n]" and tot = "n + 2"])
       (simp_all add: growing_call is_success_simps dict_getitem_success issues_page_get)
  with s show ?thesis by blast
qed

lemma growing_loop_never_returns:
  assumes "list_jira_issues_loop E inst jql s = Some y"
  shows "E = fake_ext pat_env growing_server \<longrightarrow> inst = ''https://a.example'' \<longrightarrow> False"
proof (rule list_jira_issues_loop.raw_induct
    [where P = "\<lambda>E inst jql s y. E = fake_ext pat_env growing_server \<longrightarrow> inst = ''https://a.example'' \<longrightarrow> False",
     OF _ assms])
  fix loop :: "ext \<Rightarrow> string \<Rightarrow> string \<Rightarrow> int \<times> json list \<times> world \<Rightarrow> ((exn + dict) \<times> world) option"
  fix E' inst' jql' s' y'
  assume IH: "\<And>E inst jql s y. loop E inst jql s = Some y \<Longrightarrow>
      E = fake_ext pat_env growing_server \<longrightarrow> inst = ''https://a.example'' \<longrightarrow> False"
  assume eq: "(case jira_issues_iter E' inst' jql' s' of Inl r \<Rightarrow> Some r | Inr s'' \<Rightarrow> loop E' inst' jql' s'') = Some y'"
  show "E' = fake_ext pat_env growing_server \<longrightarrow> inst' = ''https://a.example'' \<longrightarrow> False"
  proof (intro impI)
    assume a: "E' = fake_ext pat_env growing_server" and b: "inst' = ''https://a.example''"
    obtain t where t: "jira_issues_iter E' inst' jql' s' = Inr t"
      using growing_iter a b by blast
    with eq have "loop E' inst' jql' t = Some y'" by simp
    from IH[OF this] a b show False by blast
  qed
qed

text \<open>
  C10. The claim: \<open>list_jira_issues\<close> terminates for every sequence of successful pages
  in which each page holds at least one issue or reports a total no greater than the
  offset plus its number of issues; the loop leaves exactly when the offset plus the
  page's issue count reaches the reported total, so an empty page with a total above
  the accumulated count does not advance the offset. Termination as stated fails when the
  reported totals keep growing; it holds when they are bounded by some number \<open>T\<close>.
  The theorem: if every page that the run requests is successful, holds at least one
  issue or reports a total no greater than the offset plus its number of issues, and
  reports a total of at most \<open>T\<close>, then \<open>list_jira_issues\<close> returns, with a Success;
  the rest of the claim is proved as stated.
\<close>

theorem C10_list_jira_issues_terminates_for_bounded_totals:
  "((\<forall>n acc w.
       rtranclp (\<lambda>s s'. jira_issues_iter E inst jql s = Inr s') (0, [], w0) (n, acc, w) \<longrightarrow>
       (\<exists>data d items tot.
          fst (search_call E w inst jql n) = Inr data \<and> is_success data
          \<and> dict_getitem data ''data'' = Inr d
          \<and> py_get d ''issues'' (JArr []) = Inr (JArr items)
          \<and> py_get d ''total'' (JInt 0) = Inr (JInt tot)
          \<and> (items \<noteq> [] \<or> tot \<le> n + int (length items)) \<and> tot \<le> T))
    \<longrightarrow> (\<exists>found w'. list_jira_issues E w0 inst jql = Some (Inr (success_list found), w')))
   \<and> (fst (search_call E w inst jql n) = Inr data \<and> is_success data
      \<and> dict_getitem data ''data'' = Inr d
      \<and> py_get d ''issues'' (JArr []) = Inr (JArr items)
      \<and> py_get d ''total'' (JInt 0) = Inr (JInt tot)
      \<longrightarrow> jira_issues_iter E inst jql (n, acc, w) =
            (if n + int (length items) \<ge> tot
             then Inl (Inr (success_list (acc @ items)), snd (search_call E w inst jql n))
             else Inr (n + int (length items), acc @ items, snd (search_call E w inst jql n))))
   \<and> (rtranclp (\<lambda>s s'. jira_issues_iter E inst jql s = Inr s') (0, [], w0) (n, acc, w)
      \<and> fst (search_call E w inst jql n) = Inr data \<and> is_success data
      \<and> dict_getitem data ''data'' = Inr d
      \<and> py_get d ''issues'' (JArr []) = Inr (JArr [])
      \<and> py_get d ''total'' (JInt 0) = Inr (JInt tot) \<and> int (length acc) < tot
      \<longrightarrow> jira_issues_iter E inst jql (n, acc, w) = Inr (n, acc, snd (search_call E w inst jql n)))"
proof (intro conjI impI)
  assume a: "\<forall>n acc w.
       rtranclp (\<lambda>s s'. jira_issues_iter E inst jql s = Inr s') (0, [], w0) (n, acc, w) \<longrightarrow>
       (\<exists>data d items tot.
          fst (search_call E w inst jql n) = Inr data \<and> is_success data
          \<and> dict_getitem data ''data'' = Inr d
          \<and> py_get d ''issues'' (JArr []) = Inr (JArr items)
          \<and> py_get d ''total'' (JInt 0) = Inr (JInt tot)
          \<and> (items \<noteq> [] \<or> tot \<le> n + int (length items)) \<and> tot \<le> T)"
  have "\<exists>found w'. list_jira_issues_loop E inst jql (0, [], w0) = Some (Inr (success_list found), w')"
  proof (rule jira_loop_terminates[where T = T and ?w0.0 = w0])
    fix n acc w
    assume "rtranclp (\<lambda>s s'. jira_issues_iter E inst jql s = Inr s') (0, [], w0) (n, acc, w)"
    with a show "\<exists>data d items tot.
          fst (search_call E w inst jql n) = Inr data \<and> is_success data
          \<and> dict_getitem data ''data'' = Inr d
          \<and> py_get d ''issues'' (JArr []) = Inr (JArr items)
          \<and> py_get d ''total'' (JInt 0) = Inr (JInt tot)
          \<and> (items \<noteq> [] \<or> tot \<le> n + int (length items)) \<and> tot \<le> T"
      by blast
  next
    show "rtranclp (\<lambda>s s'. jira_issues_iter E inst jql s = Inr s') (0, [], w0) (0, [], w0)"
      by simp
  qed
  then show "\<exists>found w'. list_jira_issues E w0 inst jql = Some (Inr (success_list found), w')"
    by (simp add: list_jira_issues_def)
next
  assume "fst (search_call E w inst jql n) = Inr data \<and> is_success data
      \<and> dict_getitem data ''data'' = Inr d
      \<and> py_get d ''issues'' (JArr []) = Inr (JArr items)
      \<and> py_get d ''total'' (JInt 0) = Inr (JInt tot)"
  then show "jira_issues_iter E inst jql (n, acc, w) =
            (if n + int (length items) \<ge> tot
             then Inl (Inr (success_list (acc @ items)), snd (search_call E w inst jql n))
             else Inr (n + int (length items), acc @ items, snd (search_call E w inst jql n)))"
    by (intro jira_issues_iter_page[where data = data and d = d]) simp_all
next
  assume a: "rtranclp (\<lambda>s s'. jira_issues_iter E inst jql s = Inr s') (0, [], w0) (n, acc, w)
      \<and> fst (search_call E w inst jql n) = Inr data \<and> is_success data
      \<and> dict_getitem data ''data'' = Inr d
      \<and> py_get d ''issues'' (JArr []) = Inr (JArr [])
      \<and> py_get d ''total'' (JInt 0) = Inr (JInt tot) \<and> int (length acc) < tot"
  then have count: "n = int (length acc)"
    using jira_offset_is_count[of E inst jql w0 "(n, acc, w)"] by simp
  from a have "jira_issues_iter E inst jql (n, acc, w) =
            (if n + int (length ([]::json list)) \<ge> tot
             then Inl (Inr (success_list (acc @ [])), snd (search_call E w inst jql n))
             else Inr (n + int (length ([]::json list)), acc @ [], snd (search_call E w inst jql n)))"
    by (intro jira_issues_iter_page[where data = data and d = d]) simp_all
  with a count show "jira_issues_iter E inst jql (n, acc, w) = Inr (n, acc, snd (search_call E w inst jql n))"
    by simp
qed

theorem C10_growing_total_never_returns:
  "list_jira_issues (fake_ext pat_env growing_server) no_context ''https://a.example'' [] = None"
proof (cases "list_jira_issues (fake_ext pat_env growing_server) no_context ''https://a.example'' []")
  case None
  then show ?thesis .
next
  case (Some y)
  then show ?thesis
    using growing_loop_never_returns[of "fake_ext pat_env growing_server" "''https://a.example''" "[]"
        "(0, [], no_context)" y]
    by (simp add: list_jira_issues_def)
qed

theorem C10_bounded_totals_witness:
  "list_jira_issues (fake_ext pat_env three_pages_server) no_context ''https://a.example'' [] \<noteq> None
   \<and> list_jira_issues (fake_ext pat_env no_issues_server) no_context ''https://a.example'' [] \<noteq> None
   \<and> jira_issues_iter (fake_ext pat_env three_pages_server) ''https://a.example'' [] (0, [], no_context) =
       Inr (100, replicate 100 (JStr ''A''),
            no_context\<lparr>sent := [pat_request ''/rest/api/3/search''
                                    [(''jql'', JStr []), (''startAt'', JInt 0), (''maxResults'', JInt 100)]]\<rparr>)
   \<and> jira_issues_iter (fake_ext pat_env stuck_server) ''https://a.example'' [] (0, [], no_context) =
       Inr (0, [],
            no_context\<lparr>sent := [pat_request ''/rest/api/3/search''
                                    [(''jql'', JStr []), (''startAt'', JInt 0), (''maxResults'', JInt 100)]]\<rparr>)"
proof (intro conjI)
  have "\<exists>found w'. list_jira_issues (fake_ext pat_env three_pages_server) no_context ''https://a.example'' [] =
      Some (Inr (success_list found), w')"
    using C10_list_jira_issues_terminates_for_bounded_totals
      [where E = "fake_ext pat_env three_pages_server" and inst = "''https://a.example''"
         and jql = "[]" and ?w0.0 = no_context and T = 240, THEN conjunct1]
    by (simp add: three_pages_call is_success_simps dict_getitem_success issues_page_get)
  then show "list_jira_issues (fake_ext pat_env three_pages_server) no_context ''https://a.example'' [] \<noteq> None"
    by auto
next
  have pages: "\<forall>n acc w.
       rtranclp (\<lambda>s s'. jira_issues_iter (fake_ext pat_env no_issues_server) ''https://a.example'' [] s = Inr s')
         (0, [], no_context) (n, acc, w) \<longrightarrow>
       (\<exists>data d items tot.
          fst (search_call (fake_ext pat_env no_issues_server) w ''https://a.example'' [] n) = Inr data
          \<and> is_success data
          \<and> dict_getitem data ''data'' = Inr d
          \<and> py_get d ''issues'' (JArr []) = Inr (JArr items)
          \<and> py_get d ''total'' (JInt 0) = Inr (JInt tot)
          \<and> (items \<noteq> [] \<or> tot \<le> n + int (length items)) \<and> tot \<le> 0)"
  proof (intro allI impI)
    fix n acc w
    assume "rtranclp (\<lambda>s s'. jira_issues_iter (fake_ext pat_env no_issues_server) ''https://a.example'' [] s = Inr s')
         (0, [], no_context) (n, acc, w)"
    from jira_offset_is_count[OF this] have "0 \<le> n" by simp
    then show "\<exists>data d items tot.
          fst (search_call (fake_ext pat_env no_issues_server) w ''https://a.example'' [] n) = Inr data
          \<and> is_success data
          \<and> dict_getitem data ''data'' = Inr d
          \<and> py_get d ''issues'' (JArr []) = Inr (JArr items)
          \<and> py_get d ''total'' (JInt 0) = Inr (JInt tot)
          \<and> (items \<noteq> [] \<or> tot \<le> n + int (length items)) \<and> tot \<le> 0"
      by (simp add: no_issues_call is_success_simps dict_getitem_success issues_page_get)
  qed
  have "\<exists>found w'. list_jira_issues (fake_ext pat_env no_issues_server) no_context ''https://a.example'' [] =
      Some (Inr (success_list found), w')"
    using C10_list_jira_issues_terminates_for_bounded_totals
      [where E = "fake_ext pat_env no_issues_server" and inst = "''https://a.example''"
         and jql = "[]" and ?w0.0 = no_context and T = 0, THEN conjunct1] pages
    by blast
  then show "list_jira_issues (fake_ext pat_env no_issues_server) no_context ''https://a.example'' [] \<noteq> None"
    by auto
next
  show "jira_issues_iter (fake_ext pat_env three_pages_server) ''https://a.example'' [] (0, [], no_context) =
       Inr (100, replicate 100 (JStr ''A''),
            no_context\<lparr>sent := [pat_request ''/rest/api/3/search''
                                    [(''jql'', JStr []), (''startAt'', JInt 0), (''maxResults'', JInt 100)]]\<rparr>)"
    using C10_list_jira_issues_terminates_for_bounded_totals
      [where E = "fake_ext pat_env three_pages_server" and inst = "''https://a.example''"
         and jql = "[]" and w = no_context and n = 0 and acc = "[]"
         and data = "ResultsSuccess (issues_page (replicate 100 (JStr ''A'')) 240)"
         and d = "issues_page (replicate 100 (JStr ''A'')) 240"
         and items = "replicate 100 (JStr ''A'')" and tot = 240, THEN conjunct2, THEN conjunct1]
    by (simp add: three_pages_call is_success_simps dict_getitem_success issues_page_get no_context_def)
next
  show "jira_issues_iter (fake_ext pat_env stuck_server) ''https://a.example'' [] (0, [], no_context) =
       Inr (0, [],
            no_context\<lparr>sent := [pat_request ''/rest/api/3/search''
                                    [(''jql'', JStr []), (''startAt'', JInt 0), (''maxResults'', JInt 100)]]\<rparr>)"
    using C10_list_jira_issues_terminates_for_bounded_totals
      [where E = "fake_ext pat_env stuck_server" and inst = "''https://a.example''"
         and jql = "[]" and ?w0.0 = no_context and w = no_context and n = 0 and acc = "[]"
         and data = "ResultsSuccess (issues_page [] 5)"
         and d = "issues_page [] 5" and tot = 5, THEN conjunct2, THEN conjunct2]
    by (simp add: stuck_call is_success_simps dict_getitem_success issues_page_get no_context_def)
qed

text \<open>
  C6. Given a server that serves three successful pages of 100, 100 and 40 issues at
  the offsets 0, 100 and 200, each with the reported total 240, \<open>list_jira_issues\<close>
  returns a Success whose data is the concatenation of the three pages in order, 240
  issues in all.
\<close>

theorem C6_three_pages_are_concatenated:
  assumes "length p1 = 100" and "length p2 = 100" and "length p3 = 40"
    and "search_call E w0 inst jql 0 = (Inr (ResultsSuccess b1), w1)"
    and "py_get b1 ''issues'' (JArr []) = Inr (JArr p1)"
    and "py_get b1 ''total'' (JInt 0) = Inr (JInt 240)"
    and "search_call E w1 inst jql 100 = (Inr (ResultsSuccess b2), w2)"
    and "py_get b2 ''issues'' (JArr []) = Inr (JArr p2)"
    and "py_get b2 ''total'' (JInt 0) = Inr (JInt 240)"
    and "search_call E w2 inst jql 200 = (Inr (ResultsSuccess b3), w3)"
    and "py_get b3 ''issues'' (JArr []) = Inr (JArr p3)"
    and "py_get b3 ''total'' (JInt 0) = Inr (JInt 240)"
  shows "list_jira_issues E w0 inst jql = Some (Inr (success_list (p1 @ p2 @ p3)), w3)
         \<and> length (p1 @ p2 @ p3) = 240"
proof -
  have it1: "jira_issues_iter E inst jql (0, [], w0) = Inr (100, p1, w1)"
    using assms(1)
    by (subst jira_issues_iter_page[where data = "ResultsSuccess b1" and d = b1 and items = p1 and tot = 240])
       (simp_all add: assms(4,5,6) is_success_simps dict_getitem_success)
  have it2: "jira_issues_iter E inst jql (100, p1, w1) = Inr (200, p1 @ p2, w2)"
    using assms(2)
    by (subst jira_issues_iter_page[where data = "ResultsSuccess b2" and d = b2 and items = p2 and tot = 240])
       (simp_all add: assms(7,8,9) is_success_simps dict_getitem_success)
  have it3: "jira_issues_iter E inst jql (200, p1 @ p2, w2) = Inl (Inr (success_list (p1 @ p2 @ p3)), w3)"
    using assms(3)
    by (subst jira_issues_iter_page[where data = "ResultsSuccess b3" and d = b3 and items = p3 and tot = 240])
       (simp_all add: assms(10,11,12) is_success_simps dict_getitem_success)
  have "list_jira_issues_loop E inst jql (0, [], w0) = list_jira_issues_loop E inst jql (100, p1, w1)"
    by (subst list_jira_issues_loop.simps) (simp add: it1)
  also have "\<dots> = list_jira_issues_loop E inst jql (200, p1 @ p2, w2)"
    by (subst list_jira_issues_loop.simps) (simp add: it2)
  also have "\<dots> = Some (Inr (success_list (p1 @ p2 @ p3)), w3)"
    by (subst list_jira_issues_loop.simps) (simp add: it3)
  finally show ?thesis
    using assms(1,2,3) by (simp add: list_jira_issues_def)
qed

theorem C6_three_pages_witness:
  "map_option fst (list_jira_issues (fake_ext pat_env three_pages_server) no_context ''https://a.example'' []) =
     Some (Inr (success_list (replicate 100 (JStr ''A'') @ replicate 100 (JStr ''B'') @ replicate 40 (JStr ''C''))))
   \<and> length (replicate 100 (JStr ''A'') @ replicate 100 (JStr ''B'') @ replicate 40 (JStr ''C'')) = 240"
  using C6_three_pages_are_concatenated
    [where E = "fake_ext pat_env three_pages_server" and inst = "''https://a.example''" and jql = "[]"
       and ?w0.0 = no_context
       and ?p1.0 = "replicate 100 (JStr ''A'')" and ?b1.0 = "issues_page (replicate 100 (JStr ''A'')) 240"
       and ?p2.0 = "replicate 100 (JStr ''B'')" and ?b2.0 = "issues_page (replicate 100 (JStr ''B'')) 240"
       and ?p3.0 = "replicate 40 (JStr ''C'')" and ?b3.0 = "issues_page (replicate 40 (JStr ''C'')) 240",
     OF _ _ _ three_pages_call[of no_context "[]" 0, simplified] _ _
        three_pages_call[of _ "[]" 100, simplified] _ _
        three_pages_call[of _ "[]" 200, simplified]]
  by (simp add: issues_page_get)

section \<open>Abort on a failed page\<close>

text \<open>
  C5. Whenever a page request made by \<open>list_jira_issues\<close> or by
  \<open>list_jsm_service_projects\<close> returns an outcome that is not a Success (an Error or a
  Pending), after any number of pages that were fetched and accumulated before it, the
  operation returns exactly that outcome, not the accumulated items.
\<close>

theorem C5_failed_page_outcome_is_returned:
  "(rtranclp (\<lambda>s s'. jira_issues_iter E inst jql s = Inr s') (0, [], w0) (n, acc, w)
      \<and> fst (search_call E w inst jql n) = Inr r \<and> \<not> is_success r
    \<longrightarrow> list_jira_issues E w0 inst jql = Some (Inr r, snd (search_call E w inst jql n)))
   \<and> (rtranclp (\<lambda>s s'. jsm_projects_iter E inst s = Inr s') (0, [], w0) (n, acc, w)
      \<and> fst (desk_call E w inst n) = Inr r \<and> \<not> is_success r
    \<longrightarrow> list_jsm_service_projects E w0 inst = Some (Inr r, snd (desk_call E w inst n)))"
proof (intro conjI impI)
  assume a: "rtranclp (\<lambda>s s'. jira_issues_iter E inst jql s = Inr s') (0, [], w0) (n, acc, w)
      \<and> fst (search_call E w inst jql n) = Inr r \<and> \<not> is_success r"
  then have "list_jira_issues_loop E inst jql (0, [], w0) = list_jira_issues_loop E inst jql (n, acc, w)"
    by (intro jira_loop_steps) simp
  also have "\<dots> = Some (Inr r, snd (search_call E w inst jql n))"
    using a by (subst list_jira_issues_loop.simps) (simp add: jira_issues_iter_abort)
  finally show "list_jira_issues E w0 inst jql = Some (Inr r, snd (search_call E w inst jql n))"
    by (simp add: list_jira_issues_def)
next
  assume a: "rtranclp (\<lambda>s s'. jsm_projects_iter E inst s = Inr s') (0, [], w0) (n, acc, w)
      \<and> fst (desk_call E w inst n) = Inr r \<and> \<not> is_success r"
  then have "list_jsm_service_projects_loop E inst (0, [], w0) = list_jsm_service_projects_loop E inst (n, acc, w)"
    by (intro jsm_loop_steps) simp
  also have "\<dots> = Some (Inr r, snd (desk_call E w inst n))"
    using a by (subst list_jsm_service_projects_loop.simps) (simp add: jsm_projects_iter_abort)
  finally show "list_jsm_service_projects E w0 inst = Some (Inr r, snd (desk_call E w inst n))"
    by (simp add: list_jsm_service_projects_def)
qed

theorem C5_failed_page_witness:
  "map_option fst (list_jira_issues (fake_ext pat_env failing_server) no_context ''https://a.example'' []) =
     Some (Inr (ResultsError ''An error occurred while calling Jira API endpoint https://a.example: Server error 500''))
   \<and> map_option fst (list_jsm_service_projects (fake_ext pat_env failing_server) no_context ''https://a.example'') =
     Some (Inr (ResultsError ''An error occurred while calling Jira API endpoint https://a.example: Server error 500''))"
proof (intro conjI)
  let ?F = "fake_ext pat_env failing_server"
  let ?w1 = "no_context\<lparr>sent := sent no_context @ [pat_request ''/rest/api/3/search''
                [(''jql'', JStr []), (''startAt'', JInt 0), (''maxResults'', JInt 100)]]\<rparr>"
  let ?msg = "''An error occurred while calling Jira API endpoint https://a.example: Server error 500''"
  have c0: "search_call ?F no_context ''https://a.example'' [] 0 =
      (Inr (ResultsSuccess (issues_page (replicate 100 (JStr ''A'')) 240)), ?w1)"
    by (rule fake_pat_ok) (simp add: failing_server_def param_of_pat_request dict_get_def)
  have "jira_issues_iter ?F ''https://a.example'' [] (0, [], no_context) =
      Inr (100, replicate 100 (JStr ''A''), ?w1)"
    by (subst jira_issues_iter_page[where data = "ResultsSuccess (issues_page (replicate 100 (JStr ''A'')) 240)"
          and d = "issues_page (replicate 100 (JStr ''A'')) 240"
          and items = "replicate 100 (JStr ''A'')" and tot = 240])
       (simp_all add: c0 is_success_simps dict_getitem_success issues_page_get)
  then have reach: "rtranclp (\<lambda>s s'. jira_issues_iter ?F ''https://a.example'' [] s = Inr s')
      (0, [], no_context) (100, replicate 100 (JStr ''A''), ?w1)"
    by (intro r_into_rtranclp)
  have c1: "fst (search_call ?F ?w1 ''https://a.example'' [] 100) = Inr (ResultsError ?msg)"
    by (subst fake_pat_status_error[where resp = error_500])
       (simp_all add: failing_server_def param_of_pat_request dict_get_def error_500_def)
  show "map_option fst (list_jira_issues ?F no_context ''https://a.example'' []) = Some (Inr (ResultsError ?msg))"
    using C5_failed_page_outcome_is_returned
      [where E = ?F and inst = "''https://a.example''" and jql = "[]" and ?w0.0 = no_context
         and n = 100 and acc = "replicate 100 (JStr ''A'')" and w = ?w1 and r = "ResultsError ?msg",
       THEN conjunct1]
      reach c1
    by (simp add: is_success_simps)
  have d0: "fst (desk_call ?F no_context ''https://a.example'' 0) = Inr (ResultsError ?msg)"
    by (subst fake_pat_status_error[where resp = error_500])
       (simp_all add: failing_server_def param_of_pat_request dict_get_def error_500_def)
  show "map_option fst (list_jsm_service_projects ?F no_context ''https://a.example'') = Some (Inr (ResultsError ?msg))"
    using C5_failed_page_outcome_is_returned
      [where E = ?F and inst = "''https://a.example''" and ?w0.0 = no_context
         and n = 0 and acc = "[]" and w = no_context and r = "ResultsError ?msg",
       THEN conjunct2]
      d0
    by (simp add: is_success_simps)
qed

section \<open>No credential and no consent yet\<close>

text \<open>
  C8. In the OAuth path (the OAuth client configuration is present), when the session
  state holds no credential under the token cache key and the consent capability has
  no granted credential, the refresh step requests consent, returns Pending, and leaves
  the session state as it was: nothing is written under the token cache key.
\<close>

theorem C8_no_credential_requests_consent_and_is_pending:
  assumes "get_auth_sheme_and_credential E = Inr (scheme, cred)"
    and "\<not> truthy (state_get (state c) TOKEN_CACHE)"
    and "auth_response c \<lparr> auth_scheme = scheme, raw_auth_credential = cred \<rparr> = None"
  shows "refresh_credentials E c =
           (Inr ResultsPending,
            c\<lparr>requested := requested c @ [\<lparr> auth_scheme = scheme, raw_auth_credential = cred \<rparr>]\<rparr>)
         \<and> state (snd (refresh_credentials E c)) = state c
         \<and> \<not> truthy (state_get (state (snd (refresh_credentials E c))) TOKEN_CACHE)"
  using assms by (simp add: refresh_credentials_def Let_def)

theorem C8_pending_witness:
  "fst (refresh_credentials (fake_ext oauth_env empty_server) fresh_session) = Inr ResultsPending
   \<and> length (requested (snd (refresh_credentials (fake_ext oauth_env empty_server) fresh_session))) = 1
   \<and> state (snd (refresh_credentials (fake_ext oauth_env empty_server) fresh_session)) = Map.empty"
proof -
  let ?E = "fake_ext oauth_env empty_server"
  obtain scheme cred where cfg: "get_auth_sheme_and_credential ?E = Inr (scheme, cred)"
    by (simp add: get_auth_sheme_and_credential_def fake_ext_sel oauth_env_def)
  have empty: "\<not> truthy (state_get (state fresh_session) TOKEN_CACHE)"
    by (simp add: fresh_session_def state_get_def)
  have none: "auth_response fresh_session \<lparr> auth_scheme = scheme, raw_auth_credential = cred \<rparr> = None"
    by (simp add: fresh_session_def)
  from C8_no_credential_requests_consent_and_is_pending[OF cfg empty none]
  show ?thesis
    by (simp add: fresh_session_def)
qed

section \<open>Tenant resolution with a populated cache\<close>

text \<open>
  C9. Tenant resolution is idempotent. On the path that resolves tenants from the
  session (no fixed tenant is configured through \<open>JIRA_INSTANCE\<close>), when the session's
  tenant cache entry is populated, a call to the tenant-listing operation makes no
  network call and returns a Success whose map is the cached one; the world (the
  session and the list of requests sent) is unchanged, so a second call returns the
  same map. With a fixed tenant configured the operation answers with the one-entry
  map of that tenant, again without a request and with the world unchanged.
\<close>

theorem C9_cached_tenants_returned_without_request:
  "(\<not> env_truthy (getenv E ''JIRA_INSTANCE'') \<and> tc w = Some c \<and> state_bool E (state c)
      \<and> state c JIRA_INSTANCE_CACHE = Some cache \<and> truthy cache
    \<longrightarrow> auth_list_jira_instances E w = (Inr (ResultsSuccess cache), w)
        \<and> auth_list_jira_instances E (snd (auth_list_jira_instances E w)) = (Inr (ResultsSuccess cache), w))
   \<and> (getenv E ''JIRA_INSTANCE'' = Some fixed \<and> fixed \<noteq> []
    \<longrightarrow> auth_list_jira_instances E w =
          (Inr (ResultsSuccess (JObj [(JStr fixed, JObj [(JStr ''id'', JNull), (JStr ''name'', JStr [])])])), w))"
proof (intro conjI impI)
  assume a: "\<not> env_truthy (getenv E ''JIRA_INSTANCE'') \<and> tc w = Some c \<and> state_bool E (state c)
      \<and> state c JIRA_INSTANCE_CACHE = Some cache \<and> truthy cache"
  then show first: "auth_list_jira_instances E w = (Inr (ResultsSuccess cache), w)"
    by (simp add: auth_list_jira_instances_def state_get_def return_instance_cache_def)
  then show "auth_list_jira_instances E (snd (auth_list_jira_instances E w)) = (Inr (ResultsSuccess cache), w)"
    by simp
next
  assume "getenv E ''JIRA_INSTANCE'' = Some fixed \<and> fixed \<noteq> []"
  then show "auth_list_jira_instances E w =
          (Inr (ResultsSuccess (JObj [(JStr fixed, JObj [(JStr ''id'', JNull), (JStr ''name'', JStr [])])])), w)"
    by (simp add: auth_list_jira_instances_def)
qed

theorem C9_cached_tenants_witness:
  "auth_list_jira_instances (fake_ext oauth_env empty_server) \<lparr> tc = Some cached_session, sent = [] \<rparr> =
     (Inr (ResultsSuccess (JObj [(JStr ''https://a.example'', JObj [(JStr ''id'', JStr ''1234''), (JStr ''name'', JStr ''A'')])])),
      \<lparr> tc = Some cached_session, sent = [] \<rparr>)
   \<and> auth_list_jira_instances (fake_ext pat_env empty_server) \<lparr> tc = Some cached_session, sent = [] \<rparr> =
     (Inr (ResultsSuccess (JObj [(JStr ''https://a.example'', JObj [(JStr ''id'', JNull), (JStr ''name'', JStr [])])])),
      \<lparr> tc = Some cached_session, sent = [] \<rparr>)"
proof (intro conjI)
  show "auth_list_jira_instances (fake_ext oauth_env empty_server) \<lparr> tc = Some cached_session, sent = [] \<rparr> =
     (Inr (ResultsSuccess (JObj [(JStr ''https://a.example'', JObj [(JStr ''id'', JStr ''1234''), (JStr ''name'', JStr ''A'')])])),
      \<lparr> tc = Some cached_session, sent = [] \<rparr>)"
    using C9_cached_tenants_returned_without_request
      [where E = "fake_ext oauth_env empty_server" and w = "\<lparr> tc = Some cached_session, sent = [] \<rparr>"
         and c = cached_session
         and cache = "JObj [(JStr ''https://a.example'', JObj [(JStr ''id'', JStr ''1234''), (JStr ''name'', JStr ''A'')])]",
       THEN conjunct1]
    by (simp add: fake_ext_sel oauth_env_def cached_session_def)
  show "auth_list_jira_instances (fake_ext pat_env empty_server) \<lparr> tc = Some cached_session, sent = [] \<rparr> =
     (Inr (ResultsSuccess (JObj [(JStr ''https://a.example'', JObj [(JStr ''id'', JNull), (JStr ''name'', JStr [])])])),
      \<lparr> tc = Some cached_session, sent = [] \<rparr>)"
    using C9_cached_tenants_returned_without_request
      [where E = "fake_ext pat_env empty_server" and w = "\<lparr> tc = Some cached_session, sent = [] \<rparr>"
         and fixed = "''https://a.example''", THEN conjunct2]
    by (simp add: fake_ext_sel pat_env_def)
qed

section \<open>The executor boundary\<close>

text \<open>Every request the executor issues is logged, and the session context is not
  touched by the request itself.\<close>

lemma send_request_sent:
  "sent (snd (send_request E w a h ep m p j ps)) =
     sent w @ [\<lparr> req_method = m, req_url = ep @ p, req_headers = h, req_auth = a,
                 req_params = ps, req_json = j, req_timeout = 30 \<rparr>]"
  by (simp add: send_request_def Let_def split: sum.splits exn.splits)

lemma send_request_status_error:
  assumes "server E (sent w) \<lparr> req_method = m, req_url = ep @ p, req_headers = h, req_auth = a,
                               req_params = ps, req_json = j, req_timeout = 30 \<rparr> = Inr resp"
    and "\<not> (200 \<le> status_code resp \<and> status_code resp \<le> 299)"
  shows "fst (send_request E w a h ep m p j ps) =
     Inr (ResultsError (''An error occurred while calling Jira API endpoint '' @ ep @ '': '' @ status_error resp))"
  using assms
  by (cases "200 \<le> status_code resp"; cases "status_code resp \<le> 299")
     (simp_all add: send_request_def)

text \<open>\<open>_api_call\<close> either returns without a request or is one \<open>send_request\<close> from a
  world with the same log.\<close>

lemma oauth_api_call_cases:
  "sent (snd (oauth_api_call E w ep m p j ps)) = sent w
   \<or> (\<exists>w'' h. sent w'' = sent w \<and> oauth_api_call E w ep m p j ps = send_request E w'' None h ep m p j ps)"
proof (cases "tc w")
  case None
  then show ?thesis by (simp add: oauth_api_call_def)
next
  case (Some c)
  let ?w' = "w\<lparr>tc := Some (snd (refresh_credentials E c))\<rparr>"
  have w': "sent ?w' = sent w" by simp
  show ?thesis
  proof (cases "oauth_api_call E w ep m p j ps =
      send_request E ?w' None
        (AList.update ''Authorization''
           (''Bearer '' @ the (access_token (the (oauth2 (projr (model_validate_json E
               (state_get (state (snd (refresh_credentials E c))) TOKEN_CACHE)))))))
           base_headers) ep m p j ps")
    case True
    with w' show ?thesis by blast
  next
    case False
    then have "sent (snd (oauth_api_call E w ep m p j ps)) = sent w"
      using Some
      by (simp add: oauth_api_call_def Let_def split: sum.splits option.splits if_splits)
    then show ?thesis by blast
  qed
qed

lemma api_call_cases:
  "sent (snd (api_call E w ep m p j ps)) = sent w
   \<or> (\<exists>w'' a h. sent w'' = sent w \<and> api_call E w ep m p j ps = send_request E w'' a h ep m p j ps)"
proof (cases "select_strategy E w")
  case Delegated
  then show ?thesis by (auto simp add: api_call_def)
next
  case StaticPAT
  then show ?thesis by (auto simp add: api_call_def)
next
  case ManagedOAuth
  then show ?thesis
    using oauth_api_call_cases[of E w ep m p j ps] by (auto simp add: api_call_def)
qed

lemma fake_pat_api_call:
  "api_call (fake_ext pat_env srv) w ep m p j ps =
   send_request (fake_ext pat_env srv) w (Some (''user'', ''secret'')) base_headers ep m p j ps"
  by (simp add: api_call_def select_strategy_def delegated_token_def fake_ext_sel pat_env_def
      split: option.splits)

text \<open>
  C2. The claim: every transport-level failure and every non-2xx status is returned as
  an Error carrying the method, the endpoint and the underlying message, and no
  exception leaves the executor. The code handles \<open>HTTPStatusError\<close> only, and its
  message is built from the endpoint and the text of the exception. The theorem: whenever
  \<open>_api_call\<close> issues its request and the answer has a status outside 200..299, the
  outcome is the Error whose message is
  \<open>An error occurred while calling Jira API endpoint <endpoint>: <underlying message>\<close>;
  the endpoint and the underlying message occur in it.
\<close>

theorem C2_status_error_is_returned_as_error:
  assumes "sent (snd (api_call E w endpoint method path json_data params)) = sent w @ [req]"
    and "server E (sent w) req = Inr resp"
    and "\<not> (200 \<le> status_code resp \<and> status_code resp \<le> 299)"
  shows "fst (api_call E w endpoint method path json_data params) =
           Inr (ResultsError (''An error occurred while calling Jira API endpoint '' @ endpoint
                              @ '': '' @ status_error resp))
         \<and> sublist endpoint (''An error occurred while calling Jira API endpoint '' @ endpoint
                              @ '': '' @ status_error resp)
         \<and> sublist (status_error resp) (''An error occurred while calling Jira API endpoint '' @ endpoint
                              @ '': '' @ status_error resp)"
proof (intro conjI)
  from assms(1) have "sent (snd (api_call E w endpoint method path json_data params)) \<noteq> sent w"
    by simp
  with api_call_cases[of E w endpoint "method" "path" json_data params]
  obtain w'' a h where w'': "sent w'' = sent w"
    and eq: "api_call E w endpoint method path json_data params =
             send_request E w'' a h endpoint method path json_data params"
    by blast
  have "sent w @ [req] = sent w'' @ [\<lparr> req_method = method, req_url = endpoint @ path, req_headers = h,
      req_auth = a, req_params = params, req_json = json_data, req_timeout = 30 \<rparr>]"
    using assms(1) by (simp add: eq send_request_sent)
  with w'' have "req = \<lparr> req_method = method, req_url = endpoint @ path, req_headers = h,
      req_auth = a, req_params = params, req_json = json_data, req_timeout = 30 \<rparr>"
    by simp
  with assms(2) w'' have "server E (sent w'') \<lparr> req_method = method, req_url = endpoint @ path, req_headers = h,
      req_auth = a, req_params = params, req_json = json_data, req_timeout = 30 \<rparr> = Inr resp"
    by simp
  from send_request_status_error[OF this assms(3)]
  show "fst (api_call E w endpoint method path json_data params) =
           Inr (ResultsError (''An error occurred while calling Jira API endpoint '' @ endpoint
                              @ '': '' @ status_error resp))"
    by (simp add: eq)
next
  show "sublist endpoint (''An error occurred while calling Jira API endpoint '' @ endpoint
                              @ '': '' @ status_error resp)"
    by (rule sublist_appendI)
next
  have "sublist (status_error resp)
      ((''An error occurred while calling Jira API endpoint '' @ endpoint @ '': '') @ status_error resp @ [])"
    by (rule sublist_appendI)
  then show "sublist (status_error resp) (''An error occurred while calling Jira API endpoint '' @ endpoint
                              @ '': '' @ status_error resp)"
    by simp
qed

theorem C2_not_found_witness:
  "fst (api_call (fake_ext pat_env not_found_server) no_context ''https://a.example'' ''DELETE''
          ''/rest/api/3/issue/X-1'' None None) =
     Inr (ResultsError (''An error occurred while calling Jira API endpoint https://a.example: ''
                        @ not_found_message))"
proof -
  let ?E = "fake_ext pat_env not_found_server"
  let ?req = "\<lparr> req_method = ''DELETE'', req_url = ''https://a.example'' @ ''/rest/api/3/issue/X-1'',
      req_headers = base_headers, req_auth = Some (''user'', ''secret''), req_params = None,
      req_json = None, req_timeout = 30 \<rparr>"
  let ?resp = "\<lparr> status_code = 404, status_error = not_found_message, resp_text = [],
           resp_json = Inl JSONDecodeError \<rparr>"
  have s: "sent (snd (api_call ?E no_context ''https://a.example'' ''DELETE'' ''/rest/api/3/issue/X-1'' None None))
      = sent no_context @ [?req]"
    by (simp add: fake_pat_api_call send_request_sent)
  have r: "server ?E (sent no_context) ?req = Inr ?resp"
    by (simp add: fake_ext_sel not_found_server_def)
  have n: "\<not> (200 \<le> status_code ?resp \<and> status_code ?resp \<le> 299)"
    by simp
  from C2_status_error_is_returned_as_error[OF s r n]
  show ?thesis by simp
qed

theorem C2_timeout_escapes_and_method_is_absent:
  "fst (api_call (fake_ext pat_env timeout_server) no_context ''https://a.example'' ''DELETE''
          ''/rest/api/3/issue/X-1'' None None) = Inl (RequestError ''timed out'')
   \<and> fst (api_call (fake_ext pat_env not_found_server) no_context ''https://a.example'' ''DELETE''
          ''/rest/api/3/issue/X-1'' None None) =
     Inr (ResultsError (''An error occurred while calling Jira API endpoint https://a.example: ''
                        @ not_found_message))
   \<and> \<not> sublist ''DELETE'' (''An error occurred while calling Jira API endpoint https://a.example: ''
                        @ not_found_message)"
proof (intro conjI)
  show "fst (api_call (fake_ext pat_env timeout_server) no_context ''https://a.example'' ''DELETE''
          ''/rest/api/3/issue/X-1'' None None) = Inl (RequestError ''timed out'')"
    by (simp add: fake_pat_api_call send_request_def fake_ext_sel timeout_server_def)
  show "fst (api_call (fake_ext pat_env not_found_server) no_context ''https://a.example'' ''DELETE''
          ''/rest/api/3/issue/X-1'' None None) =
     Inr (ResultsError (''An error occurred while calling Jira API endpoint https://a.example: ''
                        @ not_found_message))"
    by (simp add: fake_pat_api_call send_request_def fake_ext_sel not_found_server_def)
  show "\<not> sublist ''DELETE'' (''An error occurred while calling Jira API endpoint https://a.example: ''
                        @ not_found_message)"
    by (simp add: not_found_message_def sublist_code prefix_code)
qed

section \<open>Strategy selection\<close>

text \<open>
  C7. On every call exactly one of the three strategies is selected, in the order
  delegated bearer token, static PAT Basic auth, managed OAuth2. A configured platform
  auth identifier with a session token stored under it wins, whatever the PAT variables
  are: the request carries \<open>Authorization: Bearer <token>\<close> and no Basic auth. With no
  delegated token found, a configured username and API token win over OAuth: the
  request carries Basic auth and no \<open>Authorization\<close> header. With no delegated token and
  no complete PAT configuration the OAuth path runs; this is the case in particular
  when the platform auth identifier and both PAT variables are absent.
\<close>

theorem C7_strategy_precedence:
  "(getenv E ''AGENTSPACE_AUTH_ID'' = Some auth_id \<and> auth_id \<noteq> [] \<and> tc w = Some c
      \<and> state_bool E (state c) \<and> state c (''temp:'' @ auth_id) = Some token \<and> truthy token
    \<longrightarrow> select_strategy E w = Delegated
        \<and> api_call E w endpoint method path json_data params =
            send_request E w None
              (base_headers @ [(''Authorization'', ''Bearer '' @ py_str E token)])
              endpoint method path json_data params)
   \<and> (\<not> truthy (delegated_token E w)
      \<and> getenv E ''JIRA_USERNAME'' = Some username \<and> username \<noteq> []
      \<and> getenv E ''JIRA_API_TOKEN'' = Some api_token \<and> api_token \<noteq> []
    \<longrightarrow> select_strategy E w = StaticPAT
        \<and> api_call E w endpoint method path json_data params =
            send_request E w (Some (username, api_token)) base_headers
              endpoint method path json_data params)
   \<and> (\<not> truthy (delegated_token E w)
      \<and> \<not> (env_truthy (getenv E ''JIRA_USERNAME'') \<and> env_truthy (getenv E ''JIRA_API_TOKEN''))
    \<longrightarrow> select_strategy E w = ManagedOAuth
        \<and> api_call E w endpoint method path json_data params =
            oauth_api_call E w endpoint method path json_data params)
   \<and> (getenv E ''AGENTSPACE_AUTH_ID'' = None \<and> getenv E ''JIRA_USERNAME'' = None
      \<and> getenv E ''JIRA_API_TOKEN'' = None
    \<longrightarrow> select_strategy E w = ManagedOAuth
        \<and> api_call E w endpoint method path json_data params =
            oauth_api_call E w endpoint method path json_data params)"
proof (intro conjI impI)
  assume a: "getenv E ''AGENTSPACE_AUTH_ID'' = Some auth_id \<and> auth_id \<noteq> [] \<and> tc w = Some c
      \<and> state_bool E (state c) \<and> state c (''temp:'' @ auth_id) = Some token \<and> truthy token"
  then have tok: "delegated_token E w = token"
    by (simp add: delegated_token_def state_get_def)
  with a show sel: "select_strategy E w = Delegated"
    by (simp add: select_strategy_def)
  show "api_call E w endpoint method path json_data params =
            send_request E w None
              (base_headers @ [(''Authorization'', ''Bearer '' @ py_str E token)])
              endpoint method path json_data params"
    by (simp add: api_call_def sel tok base_headers_def)
next
  assume a: "\<not> truthy (delegated_token E w)
      \<and> getenv E ''JIRA_USERNAME'' = Some username \<and> username \<noteq> []
      \<and> getenv E ''JIRA_API_TOKEN'' = Some api_token \<and> api_token \<noteq> []"
  then show sel: "select_strategy E w = StaticPAT"
    by (simp add: select_strategy_def)
  from a show "api_call E w endpoint method path json_data params =
            send_request E w (Some (username, api_token)) base_headers
              endpoint method path json_data params"
    by (simp add: api_call_def sel)
next
  assume a: "\<not> truthy (delegated_token E w)
      \<and> \<not> (env_truthy (getenv E ''JIRA_USERNAME'') \<and> env_truthy (getenv E ''JIRA_API_TOKEN''))"
  then show sel: "select_strategy E w = ManagedOAuth"
    by (auto simp add: select_strategy_def)
  show "api_call E w endpoint method path json_data params =
            oauth_api_call E w endpoint method path json_data params"
    by (simp add: api_call_def sel)
next
  assume a: "getenv E ''AGENTSPACE_AUTH_ID'' = None \<and> getenv E ''JIRA_USERNAME'' = None
      \<and> getenv E ''JIRA_API_TOKEN'' = None"
  then show sel: "select_strategy E w = ManagedOAuth"
    by (simp add: select_strategy_def delegated_token_def split: option.splits)
  show "api_call E w endpoint method path json_data params =
            oauth_api_call E w endpoint method path json_data params"
    by (simp add: api_call_def sel)
qed

theorem C7_strategy_witness:
  "select_strategy (fake_ext agentspace_env empty_server) \<lparr> tc = Some platform_session, sent = [] \<rparr> = Delegated
   \<and> sent (snd (api_call (fake_ext agentspace_env empty_server) \<lparr> tc = Some platform_session, sent = [] \<rparr>
                  ''https://a.example'' ''GET'' ''/x'' None None)) =
       [\<lparr> req_method = ''GET'', req_url = ''https://a.example/x'',
           req_headers = [(''Accept'', ''application/json''), (''Content-Type'', ''application/json''),
                          (''Authorization'', ''Bearer platform-token'')],
           req_auth = None, req_params = None, req_json = None, req_timeout = 30 \<rparr>]
   \<and> select_strategy (fake_ext pat_env empty_server) no_context = StaticPAT
   \<and> sent (snd (api_call (fake_ext pat_env empty_server) no_context
                  ''https://a.example'' ''GET'' ''/x'' None None)) =
       [\<lparr> req_method = ''GET'', req_url = ''https://a.example/x'',
           req_headers = [(''Accept'', ''application/json''), (''Content-Type'', ''application/json'')],
           req_auth = Some (''user'', ''secret''), req_params = None, req_json = None, req_timeout = 30 \<rparr>]
   \<and> select_strategy (fake_ext oauth_env empty_server) no_context = ManagedOAuth
   \<and> api_call (fake_ext oauth_env empty_server) no_context ''https://a.example'' ''GET'' ''/x'' None None =
       (Inr (ResultsError ''no tool_context when running in OAuth mode''), no_context)
   \<and> fst (api_call (fake_ext oauth_env empty_server) \<lparr> tc = Some fresh_session, sent = [] \<rparr>
            ''https://a.example'' ''GET'' ''/x'' None None) = Inr ResultsPending"
proof -
  let ?w = "\<lparr> tc = Some platform_session, sent = [] \<rparr>"
  have d: "select_strategy (fake_ext agentspace_env empty_server) ?w = Delegated
      \<and> api_call (fake_ext agentspace_env empty_server) ?w ''https://a.example'' ''GET'' ''/x'' None None =
          send_request (fake_ext agentspace_env empty_server) ?w None
            (base_headers @ [(''Authorization'', ''Bearer '' @ py_str (fake_ext agentspace_env empty_server)
                                                                  (JStr ''platform-token''))])
            ''https://a.example'' ''GET'' ''/x'' None None"
    using C7_strategy_precedence
      [where E = "fake_ext agentspace_env empty_server" and w = ?w and c = platform_session
         and auth_id = "''jira-auth''" and token = "JStr ''platform-token''", THEN conjunct1]
    by (simp add: fake_ext_sel agentspace_env_def platform_session_def)
  have p: "select_strategy (fake_ext pat_env empty_server) no_context = StaticPAT
      \<and> api_call (fake_ext pat_env empty_server) no_context ''https://a.example'' ''GET'' ''/x'' None None =
          send_request (fake_ext pat_env empty_server) no_context (Some (''user'', ''secret'')) base_headers
            ''https://a.example'' ''GET'' ''/x'' None None"
    using C7_strategy_precedence
      [where E = "fake_ext pat_env empty_server" and w = no_context
         and username = "''user''" and api_token = "''secret''", THEN conjunct2, THEN conjunct1]
    by (simp add: fake_ext_sel pat_env_def delegated_token_def no_context_def)
  have o: "select_strategy (fake_ext oauth_env empty_server) no_context = ManagedOAuth
      \<and> api_call (fake_ext oauth_env empty_server) no_context ''https://a.example'' ''GET'' ''/x'' None None =
          oauth_api_call (fake_ext oauth_env empty_server) no_context ''https://a.example'' ''GET'' ''/x'' None None"
    using C7_strategy_precedence
      [where E = "fake_ext oauth_env empty_server" and w = no_context,
       THEN conjunct2, THEN conjunct2, THEN conjunct2]
    by (simp add: fake_ext_sel oauth_env_def)
  have f: "select_strategy (fake_ext oauth_env empty_server) \<lparr> tc = Some fresh_session, sent = [] \<rparr> = ManagedOAuth
      \<and> api_call (fake_ext oauth_env empty_server) \<lparr> tc = Some fresh_session, sent = [] \<rparr>
            ''https://a.example'' ''GET'' ''/x'' None None =
          oauth_api_call (fake_ext oauth_env empty_server) \<lparr> tc = Some fresh_session, sent = [] \<rparr>
            ''https://a.example'' ''GET'' ''/x'' None None"
    using C7_strategy_precedence
      [where E = "fake_ext oauth_env empty_server" and w = "\<lparr> tc = Some fresh_session, sent = [] \<rparr>",
       THEN conjunct2, THEN conjunct2, THEN conjunct1]
    by (simp add: fake_ext_sel oauth_env_def delegated_token_def)
  have pend: "fst (oauth_api_call (fake_ext oauth_env empty_server) \<lparr> tc = Some fresh_session, sent = [] \<rparr>
            ''https://a.example'' ''GET'' ''/x'' None None) = Inr ResultsPending"
    by (simp add: oauth_api_call_def refresh_credentials_def get_auth_sheme_and_credential_def
        fake_ext_sel oauth_env_def fresh_session_def state_get_def Let_def is_success_simps)
  from d p o f pend show ?thesis
    by (simp add: send_request_sent py_str_def base_headers_def oauth_api_call_def no_context_def)
qed

end
